theory Spec2Isabelle
  imports Main
begin

section \<open>JavaScript strings\<close>

text \<open>
  The route handler \<open>POST\<close> of the analyse-url API works on JavaScript strings, which are
  sequences of UTF-16 code units: \<open>length\<close>, \<open>substring\<close>, \<open>includes\<close> and the
  regular expressions without the \<open>u\<close> flag all count code units. A string is a list of code
  units here (numbers below 65536), and \<open>js\<close> writes an ASCII literal.
\<close>

type_synonym jsstring = "nat list"

type_synonym bytes = "nat list"

definition js :: "string \<Rightarrow> jsstring" where
  "js s = map of_char s"

text \<open>\<open>s.startsWith(t)\<close> and \<open>s.includes(t)\<close> (\<open>includes\<close> is a keyword of Isabelle).\<close>

fun startsWith :: "jsstring \<Rightarrow> jsstring \<Rightarrow> bool" where
  "startsWith s [] = True"
| "startsWith [] (p # ps) = False"
| "startsWith (c # cs) (p # ps) = (c = p \<and> startsWith cs ps)"

fun includes_str :: "jsstring \<Rightarrow> jsstring \<Rightarrow> bool" where
  "includes_str [] t = (t = [])"
| "includes_str (c # cs) t = (startsWith (c # cs) t \<or> includes_str cs t)"


text \<open>
  The character classes of the regular expressions: \<open>[a-zA-Z0-9]\<close>, \<open>\s\<close> (white space and
  line terminators of ECMAScript, which is also what \<open>trim\<close> removes), and the line
  terminators that \<open>.\<close> does not match.
\<close>

definition isAlnum :: "nat \<Rightarrow> bool" where
  "isAlnum c = ((48 \<le> c \<and> c \<le> 57) \<or> (65 \<le> c \<and> c \<le> 90) \<or> (97 \<le> c \<and> c \<le> 122))"

definition isWhiteSpace :: "nat \<Rightarrow> bool" where
  "isWhiteSpace c =
     ((9 \<le> c \<and> c \<le> 13) \<or> c = 32 \<or> c = 0xA0 \<or> c = 0x1680 \<or> (0x2000 \<le> c \<and> c \<le> 0x200A)
      \<or> c = 0x2028 \<or> c = 0x2029 \<or> c = 0x202F \<or> c = 0x205F \<or> c = 0x3000 \<or> c = 0xFEFF)"

definition isLineTerminator :: "nat \<Rightarrow> bool" where
  "isLineTerminator c = (c = 10 \<or> c = 13 \<or> c = 0x2028 \<or> c = 0x2029)"

text \<open>
  Matching under the \<open>i\<close> flag compares canonicalised code units. Every pattern character
  that the handler matches case-insensitively is ASCII, and ECMAScript never canonicalises
  a code unit of 128 or more to an ASCII one, so upper-casing the ASCII letters is the whole
  of it.
\<close>

definition canonicalize :: "nat \<Rightarrow> nat" where
  "canonicalize c = (if 97 \<le> c \<and> c \<le> 122 then c - 32 else c)"

fun ciStartsWith :: "jsstring \<Rightarrow> jsstring \<Rightarrow> bool" where
  "ciStartsWith s [] = True"
| "ciStartsWith [] (p # ps) = False"
| "ciStartsWith (c # cs) (p # ps) = (canonicalize c = canonicalize p \<and> ciStartsWith cs ps)"

text \<open>\<open>s.trim()\<close>.\<close>

definition trim :: "jsstring \<Rightarrow> jsstring" where
  "trim s = rev (dropWhile isWhiteSpace (rev (dropWhile isWhiteSpace s)))"

text \<open>The placeholder character U+FFFD that a lossy decoder emits.\<close>

definition placeholder :: jsstring where
  "placeholder = [0xFFFD]"

section \<open>Numbers: \<open>parseInt\<close> and \<open>String.fromCharCode\<close>\<close>

text \<open>
  \<open>parseInt(s, R)\<close> is only ever applied to a string of letters and digits (the name of an
  entity token), so neither a sign nor leading white space can occur and the value is a
  non-negative integer, not-a-number, or too large for a double. For radix 16 a leading
  \<open>0x\<close> or \<open>0X\<close> is skipped; then the longest prefix of digits of the radix is read, and
  no digit at all gives \<open>NaN\<close>. The mathematical value is rounded to the nearest double
  (53 significant bits, ties to even); for more than 20 decimal digits ECMAScript lets an
  implementation approximate, and the exact value is taken here.
\<close>

datatype jsnumber = NaN | Num nat | Infinity

definition digitValue :: "nat \<Rightarrow> nat" where
  "digitValue c = (if 48 \<le> c \<and> c \<le> 57 then c - 48
                   else if 97 \<le> c \<and> c \<le> 122 then c - 87
                   else if 65 \<le> c \<and> c \<le> 90 then c - 55
                   else 36)"

definition isDigitOf :: "nat \<Rightarrow> nat \<Rightarrow> bool" where
  "isDigitOf R c = (digitValue c < R)"

definition digitsValue :: "nat \<Rightarrow> jsstring \<Rightarrow> nat" where
  "digitsValue R ds = foldl (\<lambda>acc c. acc * R + digitValue c) 0 ds"

fun bitLength :: "nat \<Rightarrow> nat" where
  "bitLength n = (if n = 0 then 0 else Suc (bitLength (n div 2)))"

declare bitLength.simps [simp del]

definition toDouble :: "nat \<Rightarrow> jsnumber" where
  "toDouble n =
     (if n < 2 ^ 53 then Num n
      else let e = bitLength n - 53;
               q = n div 2 ^ e;
               r = n mod 2 ^ e;
               q' = (if 2 ^ e < 2 * r \<or> (2 * r = 2 ^ e \<and> odd q) then q + 1 else q);
               v = q' * 2 ^ e
           in if 2 ^ 1024 \<le> v then Infinity else Num v)"

definition parseInt :: "jsstring \<Rightarrow> nat \<Rightarrow> jsnumber" where
  "parseInt s R =
     (let s' = (if R = 16 \<and> (startsWith s (js ''0x'') \<or> startsWith s (js ''0X''))
                then drop 2 s else s);
          ds = takeWhile (isDigitOf R) s'
      in if ds = [] then NaN else toDouble (digitsValue R ds))"

text \<open>\<open>String.fromCharCode(x)\<close>: one code unit, \<open>ToUint16(x)\<close>.\<close>

definition fromCharCode :: "jsnumber \<Rightarrow> jsstring" where
  "fromCharCode x = (case x of Num n \<Rightarrow> [n mod 65536] | NaN \<Rightarrow> [0] | Infinity \<Rightarrow> [0])"

section \<open>The HTML entity decoder\<close>

text \<open>
  \<open>decodeHtmlEntities(text)\<close> is
  \<^verbatim>\<open>text.replace(/&[#]?[a-zA-Z0-9]+;/g, (entity) => ...)\<close>.
  The callback first looks the token up in \<open>entityMap\<close>, then treats a token that starts
  with \<open>&#\<close> as a numeric reference, and returns every other token as it is.
\<close>

definition entityMap :: "(jsstring \<times> jsstring) list" where
  "entityMap =
     [(js ''&amp;'', js ''&''),
      (js ''&lt;'', js ''<''),
      (js ''&gt;'', js ''>''),
      (js ''&quot;'', [34]),
      (js ''&#39;'', [39]),
      (js ''&apos;'', [39]),
      (js ''&nbsp;'', js '' '')]"

definition replaceEntity :: "jsstring \<Rightarrow> jsstring" where
  "replaceEntity entity =
     (case map_of entityMap entity of
        Some r \<Rightarrow> r
      | None \<Rightarrow>
          if startsWith entity (js ''&#'') then
            (let num = butlast (drop 2 entity)
             in if startsWith num (js ''x'')
                then fromCharCode (parseInt (drop 1 num) 16)
                else fromCharCode (parseInt num 10))
          else entity)"

text \<open>
  The pattern \<open>&[#]?[a-zA-Z0-9]+;\<close> tried at the start of \<open>s\<close>: the matched token and the
  rest of the input. The greedy run of letters and digits must be followed by \<open>;\<close>
  directly; any shorter run is followed by a letter or digit, so backtracking never finds
  another match.
\<close>

definition matchEntity :: "jsstring \<Rightarrow> (jsstring \<times> jsstring) option" where
  "matchEntity s =
     (case s of
        [] \<Rightarrow> None
      | c # cs \<Rightarrow>
          if c = 38 then
            (let hash = (if startsWith cs (js ''#'') then js ''#'' else []);
                 r = drop (length hash) cs;
                 name = takeWhile isAlnum r
             in case dropWhile isAlnum r of
                  [] \<Rightarrow> None
                | e # rest \<Rightarrow>
                    if name \<noteq> [] \<and> e = 59 then Some (38 # hash @ name @ [59], rest)
                    else None)
          else None)"

lemma matchEntity_shorter:
  "matchEntity s = Some (entity, rest) \<Longrightarrow> length rest < length s"
proof -
  have dw: "length (dropWhile isAlnum r) \<le> length r" for r
    by (rule length_dropWhile_le)
  assume m: "matchEntity s = Some (entity, rest)"
  then obtain c cs where s: "s = c # cs"
    by (cases s) (auto simp: matchEntity_def)
  define hash where "hash = (if startsWith cs (js ''#'') then js ''#'' else [])"
  define r where "r = drop (length hash) cs"
  from m s have "\<exists>e. dropWhile isAlnum r = e # rest"
    by (auto simp: matchEntity_def Let_def hash_def r_def split: if_splits list.splits)
  then obtain e where e: "dropWhile isAlnum r = e # rest" ..
  have "length (e # rest) \<le> length r"
    using dw [of r] by (simp only: e)
  moreover have "length r \<le> length cs"
    by (simp add: r_def)
  ultimately show ?thesis
    by (simp add: s)
qed

function decodeHtmlEntities :: "jsstring \<Rightarrow> jsstring" where
  "decodeHtmlEntities [] = []"
| "decodeHtmlEntities (c # cs) =
     (case matchEntity (c # cs) of
        Some (entity, rest) \<Rightarrow> replaceEntity entity @ decodeHtmlEntities rest
      | None \<Rightarrow> c # decodeHtmlEntities cs)"
  by pat_completeness auto
termination
proof (relation "measure length")
  show "wf (measure length)" by simp
next
  fix c cs x2 x y
  assume "matchEntity (c # cs) = Some x2" and "(x, y) = x2"
  then have "matchEntity (c # cs) = Some (x, y)" by simp
  then show "(y, c # cs) \<in> measure length"
    by (auto dest: matchEntity_shorter)
next
  fix c :: nat and cs :: jsstring
  show "(cs, c # cs) \<in> measure length" by simp
qed

section \<open>The content extractor\<close>

text \<open>
  The title is the first match of \<^verbatim>\<open>/<title[^>]*>(.*?)<\/title>/i\<close>. After \<open><title\<close> the
  greedy \<open>[^>]*\<close> runs to the first \<open>>\<close>; the lazy \<open>(.*?)\<close> then grows one code unit at
  a time, stops at the first \<open></title>\<close>, and fails at a line terminator, which \<open>.\<close> does
  not match. A start position that fails is given up for the next one.
\<close>

fun lazyUntilClose :: "jsstring \<Rightarrow> jsstring option" where
  "lazyUntilClose [] = None"
| "lazyUntilClose (c # cs) =
     (if ciStartsWith (c # cs) (js ''</title>'') then Some []
      else if isLineTerminator c then None
      else map_option (\<lambda>t. c # t) (lazyUntilClose cs))"

definition titleAt :: "jsstring \<Rightarrow> jsstring option" where
  "titleAt s =
     (if ciStartsWith s (js ''<title'') then
        (case dropWhile (\<lambda>x. x \<noteq> 62) (drop 6 s) of
           [] \<Rightarrow> None
         | g # inner \<Rightarrow> lazyUntilClose inner)
      else None)"

fun matchTitle :: "jsstring \<Rightarrow> jsstring option" where
  "matchTitle [] = None"
| "matchTitle (c # cs) =
     (case titleAt (c # cs) of Some t \<Rightarrow> Some t | None \<Rightarrow> matchTitle cs)"

text \<open>
  \<^verbatim>\<open>const rawTitle = titleMatch ? titleMatch[1].trim() : hostname;\<close>
  \<^verbatim>\<open>const pageTitle = decodeHtmlEntities(rawTitle);\<close>
\<close>

definition pageTitleOf :: "jsstring \<Rightarrow> jsstring \<Rightarrow> jsstring" where
  "pageTitleOf host html =
     decodeHtmlEntities (case matchTitle html of Some t \<Rightarrow> trim t | None \<Rightarrow> host)"

text \<open>
  \<^verbatim>\<open>.replace(/<script[^>]*>[\s\S]*?<\/script>/gi, '')\<close> and the same for \<open>style\<close>: after the
  opening word the greedy \<open>[^>]*\<close> runs to the first \<open>>\<close>, and the lazy \<open>[\s\S]*?\<close> stops
  at the first closing tag. \<open>elementAt\<close> gives the input that follows the match.
\<close>

fun afterFirst :: "jsstring \<Rightarrow> jsstring \<Rightarrow> jsstring option" where
  "afterFirst closeTag [] = None"
| "afterFirst closeTag (c # cs) =
     (if ciStartsWith (c # cs) closeTag then Some (drop (length closeTag) (c # cs))
      else afterFirst closeTag cs)"

definition elementAt :: "jsstring \<Rightarrow> jsstring \<Rightarrow> jsstring \<Rightarrow> jsstring option" where
  "elementAt openTag closeTag s =
     (if ciStartsWith s openTag then
        (case dropWhile (\<lambda>x. x \<noteq> 62) (drop (length openTag) s) of
           [] \<Rightarrow> None
         | g # inner \<Rightarrow> afterFirst closeTag inner)
      else None)"

lemma afterFirst_shorter: "afterFirst closeTag s = Some rest \<Longrightarrow> length rest \<le> length s"
  by (induction s) (auto split: if_splits)

lemma elementAt_shorter:
  assumes "elementAt openTag closeTag s = Some rest"
  shows "length rest < length s"
proof -
  define d where "d = dropWhile (\<lambda>x. x \<noteq> (62::nat)) (drop (length openTag) s)"
  from assms obtain g inner where d: "d = g # inner" and a: "afterFirst closeTag inner = Some rest"
    by (auto simp: elementAt_def d_def split: if_splits list.splits)
  have "length d \<le> length (drop (length openTag) s)"
    unfolding d_def by (rule length_dropWhile_le)
  then have "length inner < length s"
    by (simp add: d)
  with afterFirst_shorter [OF a] show ?thesis
    by simp
qed

function removeElements :: "jsstring \<Rightarrow> jsstring \<Rightarrow> jsstring \<Rightarrow> jsstring" where
  "removeElements openTag closeTag [] = []"
| "removeElements openTag closeTag (c # cs) =
     (case elementAt openTag closeTag (c # cs) of
        Some rest \<Rightarrow> removeElements openTag closeTag rest
      | None \<Rightarrow> c # removeElements openTag closeTag cs)"
  by pat_completeness auto
termination
proof (relation "measure (\<lambda>(openTag, closeTag, s). length s)")
  show "wf (measure (\<lambda>(openTag :: jsstring, closeTag :: jsstring, s :: jsstring). length s))"
    by simp
next
  fix openTag closeTag :: jsstring and c :: nat and cs rest :: jsstring
  assume "elementAt openTag closeTag (c # cs) = Some rest"
  then show "((openTag, closeTag, rest), openTag, closeTag, c # cs)
      \<in> measure (\<lambda>(openTag, closeTag, s). length s)"
    by (auto dest: elementAt_shorter)
next
  fix openTag closeTag :: jsstring and c :: nat and cs :: jsstring
  show "((openTag, closeTag, cs), openTag, closeTag, c # cs)
      \<in> measure (\<lambda>(openTag, closeTag, s). length s)"
    by simp
qed

text \<open>
  \<^verbatim>\<open>.replace(/<[^>]+>/g, ' ')\<close>: a \<open><\<close>, at least one code unit other than \<open>>\<close>, and the
  first \<open>>\<close>.
\<close>

definition tagAt :: "jsstring \<Rightarrow> jsstring option" where
  "tagAt s =
     (case s of
        [] \<Rightarrow> None
      | c # cs \<Rightarrow>
          if c = 60 \<and> takeWhile (\<lambda>x. x \<noteq> 62) cs \<noteq> [] then
            (case dropWhile (\<lambda>x. x \<noteq> 62) cs of [] \<Rightarrow> None | g # rest \<Rightarrow> Some rest)
          else None)"

lemma tagAt_shorter:
  assumes "tagAt s = Some rest"
  shows "length rest < length s"
proof -
  from assms obtain c cs g where s: "s = c # cs"
    and d: "dropWhile (\<lambda>x. x \<noteq> (62::nat)) cs = g # rest"
    by (auto simp: tagAt_def split: list.splits if_splits)
  have "length (dropWhile (\<lambda>x. x \<noteq> (62::nat)) cs) \<le> length cs"
    by (rule length_dropWhile_le)
  then show ?thesis
    by (simp add: d s)
qed

function stripTags :: "jsstring \<Rightarrow> jsstring" where
  "stripTags [] = []"
| "stripTags (c # cs) =
     (case tagAt (c # cs) of
        Some rest \<Rightarrow> 32 # stripTags rest
      | None \<Rightarrow> c # stripTags cs)"
  by pat_completeness auto
termination
proof (relation "measure length")
  show "wf (measure length)" by simp
next
  fix c :: nat and cs rest :: jsstring
  assume "tagAt (c # cs) = Some rest"
  then show "(rest, c # cs) \<in> measure length"
    by (auto dest: tagAt_shorter)
next
  fix c :: nat and cs :: jsstring
  show "(cs, c # cs) \<in> measure length" by simp
qed

text \<open>\<^verbatim>\<open>.replace(/\s+/g, ' ')\<close>: every maximal run of white space becomes one space.\<close>

function collapseWhiteSpace :: "jsstring \<Rightarrow> jsstring" where
  "collapseWhiteSpace [] = []"
| "collapseWhiteSpace (c # cs) =
     (if isWhiteSpace c then 32 # collapseWhiteSpace (dropWhile isWhiteSpace cs)
      else c # collapseWhiteSpace cs)"
  by pat_completeness auto
termination
proof (relation "measure length")
  show "wf (measure length)" by simp
next
  fix c :: nat and cs :: jsstring
  have "length (dropWhile isWhiteSpace cs) \<le> length cs"
    by (rule length_dropWhile_le)
  then show "(dropWhile isWhiteSpace cs, c # cs) \<in> measure length"
    by simp
next
  fix c :: nat and cs :: jsstring
  show "(cs, c # cs) \<in> measure length" by simp
qed

text \<open>
  The body excerpt: \<open>rawBodyText\<close> is cut by \<open>.substring(0, 3000)\<close>, and \<open>bodyText\<close> is its
  entity-decoded form.
\<close>

definition maxBodyLength :: nat where
  "maxBodyLength = 3000"

definition strippedText :: "jsstring \<Rightarrow> jsstring" where
  "strippedText html =
     trim (collapseWhiteSpace (stripTags
        (removeElements (js ''<style'') (js ''</style>'')
           (removeElements (js ''<script'') (js ''</script>'') html))))"

definition rawBodyTextOf :: "jsstring \<Rightarrow> jsstring" where
  "rawBodyTextOf html = take maxBodyLength (strippedText html)"

definition bodyTextOf :: "jsstring \<Rightarrow> jsstring" where
  "bodyTextOf html = decodeHtmlEntities (rawBodyTextOf html)"

section \<open>The platform\<close>

text \<open>
  What the handler calls and does not define is a parameter of the model: the URL parser
  (\<open>new URL(url)\<close>, \<open>None\<close> when it throws), \<open>fetch\<close>, the strict decoder
  (\<open>new TextDecoder(label, {fatal: true}).decode(buffer)\<close>, \<open>None\<close> when the label is unknown
  or a byte sequence is invalid), the lossy UTF-8 decoder (\<open>fatal: false\<close>, which returns a
  string for every buffer), \<open>toLowerCase\<close>, the environment variable \<open>OPENAI_API_KEY\<close> and
  the completion endpoint.
\<close>

record url =
  protocol :: jsstring
  hostname :: jsstring
  pathname :: jsstring

record response =
  ok :: bool
  status :: nat
  contentType :: "jsstring option"
  arrayBuffer :: "bytes option"

datatype fetched = FetchRejects | Fetched response

text \<open>
  A completion response carries \<open>ok\<close> and, when \<open>aiData.choices[0].message.content\<close> can be
  read without an exception, the summary text.
\<close>

datatype completion = CompletionRejects | Completion bool "jsstring option"

record platform =
  newURL :: "jsstring \<Rightarrow> url option"
  fetch :: "jsstring \<Rightarrow> fetched"
  textDecoder :: "jsstring \<Rightarrow> bytes \<Rightarrow> jsstring option"
  lossyUtf8 :: "bytes \<Rightarrow> jsstring"
  toLowerCase :: "jsstring \<Rightarrow> jsstring"
  OPENAI_API_KEY :: "jsstring option"
  chatCompletion :: "jsstring \<Rightarrow> jsstring \<Rightarrow> completion"

text \<open>The network requests a call of the handler issues, in order.\<close>

datatype request = PageRequest jsstring | CompletionRequest jsstring jsstring

section \<open>The charset resolver\<close>

text \<open>
  \<^verbatim>\<open>contentType.match(/charset=([^;]+)/i)\<close>: the first position where \<open>charset=\<close> is followed
  by at least one code unit other than \<open>;\<close>; the group is the whole run up to the next
  \<open>;\<close>. \<open>detectedCharset\<close> is the trimmed group, or \<open>null\<close>.
\<close>

fun matchCharsetParam :: "jsstring \<Rightarrow> jsstring option" where
  "matchCharsetParam [] = None"
| "matchCharsetParam (c # cs) =
     (if ciStartsWith (c # cs) (js ''charset='')
         \<and> takeWhile (\<lambda>x. x \<noteq> 59) (drop 8 (c # cs)) \<noteq> []
      then Some (takeWhile (\<lambda>x. x \<noteq> 59) (drop 8 (c # cs)))
      else matchCharsetParam cs)"

definition detectedCharset :: "jsstring \<Rightarrow> jsstring option" where
  "detectedCharset ct = map_option trim (matchCharsetParam ct)"

text \<open>\<open>tryDecodeWithCharsets(buffer)\<close>: the loop over the fixed candidates, then the lossy decode.\<close>

definition charsets :: "jsstring list" where
  "charsets = [js ''utf-8'', js ''shift_jis'', js ''euc-jp'', js ''iso-2022-jp'']"

fun tryCharsets :: "platform \<Rightarrow> jsstring list \<Rightarrow> bytes \<Rightarrow> jsstring option" where
  "tryCharsets P [] buffer = None"
| "tryCharsets P (charset # rest) buffer =
     (case textDecoder P charset buffer of
        Some decoded \<Rightarrow>
          if \<not> includes_str decoded placeholder then Some decoded
          else tryCharsets P rest buffer
      | None \<Rightarrow> tryCharsets P rest buffer)"

definition tryDecodeWithCharsets :: "platform \<Rightarrow> bytes \<Rightarrow> jsstring" where
  "tryDecodeWithCharsets P buffer =
     (case tryCharsets P charsets buffer of
        Some decoded \<Rightarrow> decoded
      | None \<Rightarrow> lossyUtf8 P buffer)"

text \<open>
  \<^verbatim>\<open>html.match(/<meta[^>]+charset=["']?([^"'\s>]+)/i)\<close>. \<open>charsetValueAt\<close> is the part from
  \<open>charset=\<close> on: an optional quote and a non-empty greedy group (giving the quote back leaves
  the group empty, so that alternative never matches). \<open>metaAttrs\<close> is \<open>[^>]+\<close> followed by
  it: the group of the longest admissible \<open>[^>]+\<close>, as the quantifier is greedy.
\<close>

definition isCharsetValueChar :: "nat \<Rightarrow> bool" where
  "isCharsetValueChar c = (\<not> (c = 34 \<or> c = 39 \<or> isWhiteSpace c \<or> c = 62))"

definition charsetValueAt :: "jsstring \<Rightarrow> jsstring option" where
  "charsetValueAt s =
     (if ciStartsWith s (js ''charset='') then
        (let r = drop 8 s;
             r' = (if startsWith r [34] \<or> startsWith r [39] then drop 1 r else r);
             v = takeWhile isCharsetValueChar r'
         in if v \<noteq> [] then Some v else None)
      else None)"

fun metaAttrs :: "jsstring \<Rightarrow> jsstring option" where
  "metaAttrs [] = None"
| "metaAttrs (c # cs) =
     (if c = 62 then None
      else (case metaAttrs cs of Some v \<Rightarrow> Some v | None \<Rightarrow> charsetValueAt cs))"

fun matchMetaCharset :: "jsstring \<Rightarrow> jsstring option" where
  "matchMetaCharset [] = None"
| "matchMetaCharset (c # cs) =
     (case (if ciStartsWith (c # cs) (js ''<meta'') then metaAttrs (drop 5 (c # cs)) else None) of
        Some v \<Rightarrow> Some v
      | None \<Rightarrow> matchMetaCharset cs)"

text \<open>
  The scan for a \<open>meta\<close> charset, which the handler does in the \<open>else\<close> branch only: \<open>html\<close>
  is the text decoded so far, and the result is the new value of \<open>html\<close>.
\<close>

definition metaRedecode :: "platform \<Rightarrow> bytes \<Rightarrow> jsstring \<Rightarrow> jsstring" where
  "metaRedecode P buffer html =
     (case matchMetaCharset html of
        None \<Rightarrow> html
      | Some m \<Rightarrow>
          (let metaCharset = toLowerCase P m
           in if metaCharset \<noteq> js ''utf-8'' \<and> \<not> includes_str html placeholder then
                (case textDecoder P metaCharset buffer of
                   Some reDecoded \<Rightarrow>
                     if \<not> includes_str reDecoded placeholder then reDecoded else html
                 | None \<Rightarrow> html)
              else html))"

text \<open>
  The whole resolution. \<open>if (detectedCharset)\<close> is true for a non-empty string only.
\<close>

definition decodeBuffer :: "platform \<Rightarrow> jsstring \<Rightarrow> bytes \<Rightarrow> jsstring" where
  "decodeBuffer P ct buffer =
     (case detectedCharset ct of
        None \<Rightarrow> metaRedecode P buffer (tryDecodeWithCharsets P buffer)
      | Some declared \<Rightarrow>
          if declared \<noteq> [] then
            (case textDecoder P declared buffer of
               Some html \<Rightarrow> html
             | None \<Rightarrow> tryDecodeWithCharsets P buffer)
          else metaRedecode P buffer (tryDecodeWithCharsets P buffer))"

text \<open>
  For the statements about the resolver: the charset the header declares, if any; the value
  of \<open>html\<close> before the scan for a \<open>meta\<close> charset; whether a charset decodes a buffer
  strictly and without a placeholder character; and whether the scan replaces \<open>html\<close> by
  \<open>t\<close>.
\<close>

definition declaredCharset :: "jsstring \<Rightarrow> jsstring option" where
  "declaredCharset ct =
     (case detectedCharset ct of
        None \<Rightarrow> None
      | Some declared \<Rightarrow> if declared \<noteq> [] then Some declared else None)"

definition firstDecode :: "platform \<Rightarrow> jsstring \<Rightarrow> bytes \<Rightarrow> jsstring" where
  "firstDecode P ct buffer =
     (case declaredCharset ct of
        None \<Rightarrow> tryDecodeWithCharsets P buffer
      | Some declared \<Rightarrow>
          (case textDecoder P declared buffer of
             Some html \<Rightarrow> html
           | None \<Rightarrow> tryDecodeWithCharsets P buffer))"

definition decodesCleanly :: "platform \<Rightarrow> jsstring \<Rightarrow> bytes \<Rightarrow> bool" where
  "decodesCleanly P charset buffer =
     (case textDecoder P charset buffer of
        None \<Rightarrow> False
      | Some t \<Rightarrow> \<not> includes_str t placeholder)"

definition priorityOrder :: "jsstring \<Rightarrow> jsstring list" where
  "priorityOrder ct =
     (case declaredCharset ct of None \<Rightarrow> charsets | Some declared \<Rightarrow> declared # charsets)"

definition redecodesTo :: "platform \<Rightarrow> bytes \<Rightarrow> jsstring \<Rightarrow> jsstring \<Rightarrow> bool" where
  "redecodesTo P buffer html t =
     (case matchMetaCharset html of
        None \<Rightarrow> False
      | Some m \<Rightarrow>
          toLowerCase P m \<noteq> js ''utf-8'' \<and> \<not> includes_str html placeholder
          \<and> textDecoder P (toLowerCase P m) buffer = Some t \<and> \<not> includes_str t placeholder)"

section \<open>The notes the handler returns\<close>

record page_note =
  title :: jsstring
  content :: jsstring

datatype result = ErrorResult nat jsstring | NoteResult page_note

text \<open>The line feed of the template literals.\<close>

definition nl :: jsstring where
  "nl = [10]"

text \<open>
  \<^verbatim>\<open>`# ${pageTitle}\n\nURL: ${url}\n\n## AI..\n\n${summary}\n\n[......](${url})`\<close>, with the
  heading \<open>AI\<close> and two kanji (summary), and the link text (open the original page).
\<close>

definition openOriginal :: jsstring where
  "openOriginal = [0x5143, 0x306e, 0x30da, 0x30fc, 0x30b8, 0x3092, 0x958b, 0x304f]"

definition summaryNote :: "jsstring \<Rightarrow> jsstring \<Rightarrow> jsstring \<Rightarrow> page_note" where
  "summaryNote pageTitle u summary =
     \<lparr>title = pageTitle,
      content = js ''# '' @ pageTitle @ nl @ nl @ js ''URL: '' @ u @ nl @ nl
        @ js ''## AI'' @ [0x8981, 0x7d04] @ nl @ nl @ summary @ nl @ nl
        @ js ''['' @ openOriginal @ js '']('' @ u @ js '')''\<rparr>"

text \<open>
  The excerpt template, with the heading of two kanji (outline):
  \<^verbatim>\<open>`# ${pageTitle}\n\nURL: ${url}\n\n## ..\n\n${bodyText.substring(0, 500)}...\n\n[......](${url})`\<close>
\<close>

definition excerptNote :: "jsstring \<Rightarrow> jsstring \<Rightarrow> jsstring \<Rightarrow> page_note" where
  "excerptNote pageTitle u bodyText =
     \<lparr>title = pageTitle,
      content = js ''# '' @ pageTitle @ nl @ nl @ js ''URL: '' @ u @ nl @ nl
        @ js ''## '' @ [0x6982, 0x8981] @ nl @ nl @ take 500 bodyText @ js ''...'' @ nl @ nl
        @ js ''['' @ openOriginal @ js '']('' @ u @ js '')''\<rparr>"

text \<open>The user message sent to the completion endpoint.\<close>

definition userMessage :: "jsstring \<Rightarrow> jsstring \<Rightarrow> jsstring \<Rightarrow> jsstring" where
  "userMessage pageTitle u bodyText =
     [0x4ee5, 0x4e0b, 0x306e] @ js ''Web''
       @ [0x30da, 0x30fc, 0x30b8, 0x3092, 0x8981, 0x7d04, 0x3057, 0x3066, 0x304f, 0x3060, 0x3055,
          0x3044, 0xff1a] @ nl @ nl
       @ [0x30bf, 0x30a4, 0x30c8, 0x30eb] @ js '': '' @ pageTitle @ nl
       @ js ''URL: '' @ u @ nl @ nl @ [0x5185, 0x5bb9] @ js '':'' @ nl @ bodyText"

text \<open>\<open>pathname.split('/').filter(Boolean)\<close> and \<open>parts.join('/')\<close>.\<close>

fun split :: "nat \<Rightarrow> jsstring \<Rightarrow> jsstring list" where
  "split sep [] = [[]]"
| "split sep (c # cs) =
     (if c = sep then [] # split sep cs
      else (case split sep cs of [] \<Rightarrow> [[c]] | seg # segs \<Rightarrow> (c # seg) # segs))"

definition pathParts :: "jsstring \<Rightarrow> jsstring list" where
  "pathParts path = filter (\<lambda>seg. seg \<noteq> []) (split 47 path)"

fun join :: "jsstring \<Rightarrow> jsstring list \<Rightarrow> jsstring" where
  "join sep [] = []"
| "join sep [x] = x"
| "join sep (x # y # ys) = x @ sep @ join sep (y # ys)"

text \<open>
  The notes of the \<open>catch (fetchError)\<close> block. The Slack title ends with the last path
  segment, or with the word for message when there is none.
\<close>

definition slackNote :: "jsstring \<Rightarrow> url \<Rightarrow> page_note" where
  "slackNote u urlObj =
     \<lparr>title = js ''Slack - '' @
        (case pathParts (pathname urlObj) of
           [] \<Rightarrow> [0x30e1, 0x30c3, 0x30bb, 0x30fc, 0x30b8]
         | p # ps \<Rightarrow> last (p # ps)),
      content = js ''# Slack '' @ [0x30ea, 0x30f3, 0x30af] @ nl @ nl @ js ''URL: '' @ u @ nl @ nl
        @ js ''## '' @ [0x6ce8, 0x610f] @ nl @ js ''Slack''
        @ [0x306e, 0x30b3, 0x30f3, 0x30c6, 0x30f3, 0x30c4, 0x306f, 0x30d7, 0x30e9, 0x30a4, 0x30d9,
           0x30fc, 0x30c8, 0x306a, 0x305f, 0x3081, 0x3001, 0x76f4, 0x63a5, 0x30a2, 0x30af, 0x30bb,
           0x30b9, 0x3057, 0x3066, 0x5185, 0x5bb9, 0x3092, 0x78ba, 0x8a8d, 0x3057, 0x3066, 0x304f,
           0x3060, 0x3055, 0x3044, 0x3002] @ nl @ nl
        @ js ''[Slack'' @ [0x3067, 0x958b, 0x304f] @ js '']('' @ u @ js '')''\<rparr>"

definition githubNote :: "jsstring \<Rightarrow> jsstring list \<Rightarrow> page_note" where
  "githubNote u parts =
     \<lparr>title = js ''GitHub - '' @ join (js ''/'') parts,
      content = js ''# GitHub '' @ [0x30ea, 0x30f3, 0x30af] @ nl @ nl @ js ''URL: '' @ u @ nl @ nl
        @ [0x30ea, 0x30dd, 0x30b8, 0x30c8, 0x30ea] @ js '': ''
        @ (case parts of [] \<Rightarrow> js ''undefined'' | p # ps \<Rightarrow> p) @ js ''/''
        @ (case drop 1 parts of [] \<Rightarrow> [] | q # qs \<Rightarrow> q) @ nl @ nl
        @ js ''[GitHub'' @ [0x3067, 0x958b, 0x304f] @ js '']('' @ u @ js '')''\<rparr>"

definition defaultNote :: "jsstring \<Rightarrow> url \<Rightarrow> page_note" where
  "defaultNote u urlObj =
     \<lparr>title = hostname urlObj,
      content = js ''# '' @ hostname urlObj @ nl @ nl @ js ''URL: '' @ u @ nl @ nl
        @ js ''## '' @ [0x5185, 0x5bb9] @ nl @ [0x3053, 0x306e] @ js ''URL''
        @ [0x306e, 0x8a73, 0x7d30, 0x306a, 0x5185, 0x5bb9, 0x3092, 0x53d6, 0x5f97, 0x3067, 0x304d,
           0x307e, 0x305b, 0x3093, 0x3067, 0x3057, 0x305f, 0x3002, 0x76f4, 0x63a5, 0x30a2, 0x30af,
           0x30bb, 0x30b9, 0x3057, 0x3066, 0x304f, 0x3060, 0x3055, 0x3044, 0x3002] @ nl @ nl
        @ js ''['' @ [0x30ea, 0x30f3, 0x30af, 0x3092, 0x958b, 0x304f] @ js '']('' @ u @ js '')''\<rparr>"

definition fallbackNote :: "jsstring \<Rightarrow> url \<Rightarrow> page_note" where
  "fallbackNote u urlObj =
     (if includes_str (hostname urlObj) (js ''slack.com'') then slackNote u urlObj
      else if includes_str (hostname urlObj) (js ''github.com'')
              \<and> 2 \<le> length (pathParts (pathname urlObj))
           then githubNote u (pathParts (pathname urlObj))
      else defaultNote u urlObj)"

section \<open>The handler\<close>

text \<open>
  \<open>analyse\<close> is the body of the inner \<open>try\<close>: it returns the note, or \<open>None\<close> when an
  exception reaches \<open>catch (fetchError)\<close>, together with the requests issued. The exceptions
  are a rejected \<open>fetch\<close>, the \<open>throw\<close> for a response that is not \<open>ok\<close>, a rejected
  \<open>arrayBuffer()\<close>, a rejected call of the completion endpoint and a completion response
  whose summary cannot be read. \<open>process.env.OPENAI_API_KEY\<close> is true when it is set to a
  non-empty string.
\<close>

definition credential :: "platform \<Rightarrow> jsstring option" where
  "credential P =
     (case OPENAI_API_KEY P of
        None \<Rightarrow> None
      | Some k \<Rightarrow> if k = [] then None else Some k)"

definition summarize ::
  "platform \<Rightarrow> jsstring \<Rightarrow> jsstring \<Rightarrow> jsstring \<Rightarrow> page_note option \<times> request list" where
  "summarize P u pageTitle bodyText =
     (case credential P of
        None \<Rightarrow> (Some (excerptNote pageTitle u bodyText), [])
      | Some k \<Rightarrow>
          (case chatCompletion P k (userMessage pageTitle u bodyText) of
             CompletionRejects \<Rightarrow>
               (None, [CompletionRequest k (userMessage pageTitle u bodyText)])
           | Completion okay summary \<Rightarrow>
               (if okay then map_option (summaryNote pageTitle u) summary
                else Some (excerptNote pageTitle u bodyText),
                [CompletionRequest k (userMessage pageTitle u bodyText)])))"

text \<open>\<^verbatim>\<open>response.headers.get('content-type') || ''\<close>\<close>

definition headerOf :: "response \<Rightarrow> jsstring" where
  "headerOf r = (case contentType r of None \<Rightarrow> [] | Some ct \<Rightarrow> ct)"

definition analyse :: "platform \<Rightarrow> jsstring \<Rightarrow> url \<Rightarrow> page_note option \<times> request list" where
  "analyse P u urlObj =
     (case fetch P u of
        FetchRejects \<Rightarrow> (None, [PageRequest u])
      | Fetched r \<Rightarrow>
          if \<not> ok r then (None, [PageRequest u])
          else
            (case arrayBuffer r of
               None \<Rightarrow> (None, [PageRequest u])
             | Some buffer \<Rightarrow>
                 (let html = decodeBuffer P (headerOf r) buffer;
                      (n, reqs) = summarize P u (pageTitleOf (hostname urlObj) html)
                               (bodyTextOf html)
                  in (n, PageRequest u # reqs))))"

text \<open>
  The fetch of the page fails when \<open>fetch\<close> rejects, the response is not \<open>ok\<close>, or its body
  cannot be read.
\<close>

definition fetchFails :: "platform \<Rightarrow> jsstring \<Rightarrow> bool" where
  "fetchFails P u =
     (case fetch P u of
        FetchRejects \<Rightarrow> True
      | Fetched r \<Rightarrow> \<not> ok r \<or> arrayBuffer r = None)"

text \<open>
  The request body is JSON that cannot be read (the outer \<open>catch\<close> answers 500), or an
  object whose \<open>url\<close> member is absent or a string. \<open>!url\<close> is true for an absent member
  and for the empty string.
\<close>

datatype body = Unreadable | Json "jsstring option"

definition errorNoUrl :: jsstring where
  "errorNoUrl = js ''URL''
     @ [0x304c, 0x6307, 0x5b9a, 0x3055, 0x308c, 0x3066, 0x3044, 0x307e, 0x305b, 0x3093]"

definition errorInvalidUrl :: jsstring where
  "errorInvalidUrl = [0x7121, 0x52b9, 0x306a] @ js ''URL'' @ [0x3067, 0x3059]"

definition errorAnalysis :: jsstring where
  "errorAnalysis = js ''URL''
     @ [0x89e3, 0x6790, 0x4e2d, 0x306b, 0x30a8, 0x30e9, 0x30fc, 0x304c, 0x767a, 0x751f, 0x3057,
        0x307e, 0x3057, 0x305f]"

definition POST :: "platform \<Rightarrow> body \<Rightarrow> result \<times> request list" where
  "POST P b =
     (case b of
        Unreadable \<Rightarrow> (ErrorResult 500 errorAnalysis, [])
      | Json None \<Rightarrow> (ErrorResult 400 errorNoUrl, [])
      | Json (Some u) \<Rightarrow>
          if u = [] then (ErrorResult 400 errorNoUrl, [])
          else
            (case newURL P u of
               None \<Rightarrow> (ErrorResult 400 errorInvalidUrl, [])
             | Some urlObj \<Rightarrow>
                 (case analyse P u urlObj of
                    (Some n, reqs) \<Rightarrow> (NoteResult n, reqs)
                  | (None, reqs) \<Rightarrow> (NoteResult (fallbackNote u urlObj), reqs))))"

text \<open>
  \<open>isValidUrl(text)\<close> of the client library, which the workspace calls before it triggers an
  analysis.
\<close>

definition isValidUrl :: "platform \<Rightarrow> jsstring \<Rightarrow> bool" where
  "isValidUrl P text =
     (case newURL P (trim text) of
        None \<Rightarrow> False
      | Some urlObj \<Rightarrow> protocol urlObj = js ''http:'' \<or> protocol urlObj = js ''https:'')"

section \<open>Entities as they are written\<close>

text \<open>
  The pieces of an encoded text, for the round trip through the decoder: a literal code unit,
  one of the named entities of \<open>entityMap\<close>, or a numeric character reference, given by its
  digits, in decimal or in hexadecimal with a lower-case \<open>x\<close>. \<open>encode\<close> is what stands in
  the markup and \<open>literal\<close> is the text it stands for: for a reference the code unit whose
  number the digits are, most significant digit first (\<open>numberOf\<close>); for \<open>&nbsp;\<close> a plain
  space, as in \<open>entityMap\<close>. A piece is \<open>encodable\<close> when a literal is not the ampersand
  itself and a reference has at least one digit, only digits of its radix (hexadecimal
  digits in either case), and a number below 65536.
\<close>

definition isDecimalDigit :: "nat \<Rightarrow> bool" where
  "isDecimalDigit c = (48 \<le> c \<and> c \<le> 57)"

definition isHexDigit :: "nat \<Rightarrow> bool" where
  "isHexDigit c = ((48 \<le> c \<and> c \<le> 57) \<or> (65 \<le> c \<and> c \<le> 70) \<or> (97 \<le> c \<and> c \<le> 102))"

fun numberOf :: "nat \<Rightarrow> jsstring \<Rightarrow> nat" where
  "numberOf R [] = 0"
| "numberOf R (d # ds) = digitValue d * R ^ length ds + numberOf R ds"

datatype piece = Literal nat | Amp | Lt | Gt | Quot | Apos | Nbsp | Decimal jsstring
  | Hexadecimal jsstring

fun encode :: "piece \<Rightarrow> jsstring" where
  "encode (Literal c) = [c]"
| "encode Amp = js ''&amp;''"
| "encode Lt = js ''&lt;''"
| "encode Gt = js ''&gt;''"
| "encode Quot = js ''&quot;''"
| "encode Apos = js ''&apos;''"
| "encode Nbsp = js ''&nbsp;''"
| "encode (Decimal ds) = js ''&#'' @ ds @ js '';''"
| "encode (Hexadecimal ds) = js ''&#x'' @ ds @ js '';''"

fun literal :: "piece \<Rightarrow> jsstring" where
  "literal (Literal c) = [c]"
| "literal Amp = js ''&''"
| "literal Lt = js ''<''"
| "literal Gt = js ''>''"
| "literal Quot = [34]"
| "literal Apos = [39]"
| "literal Nbsp = js '' ''"
| "literal (Decimal ds) = [numberOf 10 ds]"
| "literal (Hexadecimal ds) = [numberOf 16 ds]"

fun encodable :: "piece \<Rightarrow> bool" where
  "encodable (Literal c) = (c \<noteq> 38)"
| "encodable (Decimal ds) = (ds \<noteq> [] \<and> list_all isDecimalDigit ds \<and> numberOf 10 ds < 65536)"
| "encodable (Hexadecimal ds) = (ds \<noteq> [] \<and> list_all isHexDigit ds \<and> numberOf 16 ds < 65536)"
| "encodable p = True"

section \<open>Documents written as markup\<close>









section \<open>A platform for the examples\<close>

text \<open>
  The examples run the handler on a platform made of small parts, each of which agrees with
  the real one on the inputs the examples give it: a URL parser for plain
  \<open>scheme://host/path\<close> strings of lower-case letters, digits and hyphens (it returns \<open>None\<close>
  for everything else, and the examples only rely on that for a text with spaces in it);
  strict decoders for UTF-8 up to two-byte sequences, for the single-byte part of Shift_JIS
  (ASCII and half-width katakana), for UTF-16LE outside the surrogates, and for printable
  ASCII in EUC-JP and ISO-2022-JP; a lossy UTF-8 decoder that replaces every byte of 128 or
  more when the buffer is not valid; and the lower-casing of ASCII letters.
\<close>

definition isPlainChar :: "nat \<Rightarrow> bool" where
  "isPlainChar c = ((97 \<le> c \<and> c \<le> 122) \<or> (48 \<le> c \<and> c \<le> 57) \<or> c = 45)"

definition simpleURL :: "jsstring \<Rightarrow> url option" where
  "simpleURL u =
     (let scheme = takeWhile (\<lambda>c. c \<noteq> 58) u;
          rest = drop (length scheme) u;
          host = takeWhile (\<lambda>c. c \<noteq> 47) (drop 3 rest);
          path = dropWhile (\<lambda>c. c \<noteq> 47) (drop 3 rest)
      in if scheme \<in> set [js ''http'', js ''https'', js ''ftp''] \<and> startsWith rest (js ''://'')
            \<and> host \<noteq> [] \<and> list_all (\<lambda>c. isPlainChar c \<or> c = 46) host
            \<and> list_all (\<lambda>c. isPlainChar c \<or> c = 47) path
         then Some \<lparr>protocol = scheme @ js '':'', hostname = host,
                    pathname = (if path = [] then js ''/'' else path)\<rparr>
         else None)"

fun utf8Strict :: "bytes \<Rightarrow> jsstring option" where
  "utf8Strict [] = Some []"
| "utf8Strict [b] = (if b < 128 then Some [b] else None)"
| "utf8Strict (b # b2 # bs) =
     (if b < 128 then map_option (\<lambda>t. b # t) (utf8Strict (b2 # bs))
      else if 0xC2 \<le> b \<and> b \<le> 0xDF \<and> 0x80 \<le> b2 \<and> b2 \<le> 0xBF
      then map_option (\<lambda>t. ((b - 0xC0) * 64 + (b2 - 0x80)) # t) (utf8Strict bs)
      else None)"

fun sjisStrict :: "bytes \<Rightarrow> jsstring option" where
  "sjisStrict [] = Some []"
| "sjisStrict (b # bs) =
     (if b < 128 then map_option (\<lambda>t. b # t) (sjisStrict bs)
      else if 0xA1 \<le> b \<and> b \<le> 0xDF
      then map_option (\<lambda>t. (0xFF61 + (b - 0xA1)) # t) (sjisStrict bs)
      else None)"

fun utf16leStrict :: "bytes \<Rightarrow> jsstring option" where
  "utf16leStrict [] = Some []"
| "utf16leStrict [b] = None"
| "utf16leStrict (lo # hi # bs) =
     (if 0xD8 \<le> hi \<and> hi \<le> 0xDF then None
      else map_option (\<lambda>t. (hi * 256 + lo) # t) (utf16leStrict bs))"

definition demoDecoder :: "jsstring \<Rightarrow> bytes \<Rightarrow> jsstring option" where
  "demoDecoder label buffer =
     (if label = js ''utf-8'' then utf8Strict buffer
      else if label = js ''shift_jis'' then sjisStrict buffer
      else if label = js ''utf-16le'' then utf16leStrict buffer
      else if (label = js ''euc-jp'' \<or> label = js ''iso-2022-jp'')
              \<and> list_all (\<lambda>b. 32 \<le> b \<and> b < 127) buffer then Some buffer
      else None)"

definition demoLossy :: "bytes \<Rightarrow> jsstring" where
  "demoLossy buffer =
     (case utf8Strict buffer of
        Some t \<Rightarrow> t
      | None \<Rightarrow> map (\<lambda>b. if b < 128 then b else 0xFFFD) buffer)"

text \<open>No page can be fetched on \<open>demoPlatform\<close>; \<open>serving ct buffer\<close> answers every fetch
  with the header \<open>ct\<close> and the body \<open>buffer\<close>. Neither has a credential.\<close>

definition demoPlatform :: platform where
  "demoPlatform =
     \<lparr>newURL = simpleURL,
      fetch = (\<lambda>u. FetchRejects),
      textDecoder = demoDecoder,
      lossyUtf8 = demoLossy,
      toLowerCase = map (\<lambda>c. if 65 \<le> c \<and> c \<le> 90 then c + 32 else c),
      OPENAI_API_KEY = None,
      chatCompletion = (\<lambda>k m. CompletionRejects)\<rparr>"

definition serving :: "jsstring option \<Rightarrow> bytes \<Rightarrow> platform" where
  "serving ct buffer =
     demoPlatform\<lparr>fetch := (\<lambda>u. Fetched \<lparr>ok = True, status = 200, contentType = ct,
        arrayBuffer = Some buffer\<rparr>)\<rparr>"

definition helloPage :: bytes where
  "helloPage = js ''<html><head><title>Hello</title></head><body>World</body></html>''"

text \<open>A credential is set, and the call of the completion endpoint is rejected.\<close>

definition rejectingProvider :: platform where
  "rejectingProvider =
     (serving None helloPage)
       \<lparr>OPENAI_API_KEY := Some (js ''sk-test''), chatCompletion := (\<lambda>k m. CompletionRejects)\<rparr>"

definition helloResponse :: response where
  "helloResponse = \<lparr>ok = True, status = 200, contentType = None, arrayBuffer = Some helloPage\<rparr>"


definition exampleUrl :: jsstring where
  "exampleUrl = js ''http://example.com/''"

definition exampleUrlObj :: url where
  "exampleUrlObj = \<lparr>protocol = js ''http:'', hostname = js ''example.com'', pathname = js ''/''\<rparr>"

definition fileUrl :: jsstring where
  "fileUrl = js ''ftp://example.com/file''"

definition fileUrlObj :: url where
  "fileUrlObj = \<lparr>protocol = js ''ftp:'', hostname = js ''example.com'', pathname = js ''/file''\<rparr>"

definition repoUrl :: jsstring where
  "repoUrl = js ''https://github.com/owner/repo''"

definition repoUrlObj :: url where
  "repoUrlObj =
     \<lparr>protocol = js ''https:'', hostname = js ''github.com'', pathname = js ''/owner/repo''\<rparr>"

definition chatHostUrl :: jsstring where
  "chatHostUrl = js ''https://github.com.slack.com/owner/repo''"

definition chatHostUrlObj :: url where
  "chatHostUrlObj =
     \<lparr>protocol = js ''https:'', hostname = js ''github.com.slack.com'',
      pathname = js ''/owner/repo''\<rparr>"

text \<open>
  Headers that declare a charset, and a page of two bytes after a \<open>meta\<close> tag: the bytes are
  the copyright sign in UTF-8 and two half-width katakana in Shift_JIS.
\<close>

definition utf8Header :: jsstring where
  "utf8Header = js ''text/html; charset=utf-8''"

definition utf16Header :: jsstring where
  "utf16Header = js ''text/html; charset=utf-16le''"

definition sjisHeader :: jsstring where
  "sjisHeader = js ''text/html; charset=shift_jis''"

definition metaPage :: bytes where
  "metaPage = js ''<meta charset='' @ [34] @ js ''Shift_JIS'' @ [34] @ js ''>'' @ [0xC2, 0xA9]"

definition metaPageUtf8 :: jsstring where
  "metaPageUtf8 = js ''<meta charset='' @ [34] @ js ''Shift_JIS'' @ [34] @ js ''>'' @ [0xA9]"

definition metaPageSjis :: jsstring where
  "metaPageSjis =
     js ''<meta charset='' @ [34] @ js ''Shift_JIS'' @ [34] @ js ''>'' @ [0xFF82, 0xFF69]"





lemmas string_eval = js_def canonicalize_def isAlnum_def isWhiteSpace_def isLineTerminator_def
  trim_def placeholder_def nl_def

lemmas demo_eval = demoPlatform_def serving_def simpleURL_def isPlainChar_def demoDecoder_def
  demoLossy_def helloPage_def exampleUrl_def

section \<open>Strings: prefixes and occurrences\<close>

lemma startsWith_iff: "startsWith s t \<longleftrightarrow> (\<exists>r. s = t @ r)"
  by (induction s t rule: startsWith.induct) auto

lemma includes_str_iff: "includes_str s t \<longleftrightarrow> (\<exists>a b. s = a @ t @ b)"
proof (induction s)
  case Nil
  show ?case by auto
next
  case (Cons c cs)
  show ?case
  proof
    assume "includes_str (c # cs) t"
    then consider "startsWith (c # cs) t" | "includes_str cs t" by auto
    then show "\<exists>a b. c # cs = a @ t @ b"
    proof cases
      case 1
      then obtain r where "c # cs = t @ r" by (auto simp: startsWith_iff)
      then have "c # cs = [] @ t @ r" by simp
      then show ?thesis by blast
    next
      case 2
      with Cons obtain a b where "cs = a @ t @ b" by auto
      then have "c # cs = (c # a) @ t @ b" by simp
      then show ?thesis by blast
    qed
  next
    assume "\<exists>a b. c # cs = a @ t @ b"
    then obtain a b where ab: "c # cs = a @ t @ b" by auto
    show "includes_str (c # cs) t"
    proof (cases a)
      case Nil
      with ab have "startsWith (c # cs) t" by (auto simp: startsWith_iff)
      then show ?thesis by simp
    next
      case (Cons x a')
      with ab have "cs = a' @ t @ b" by simp
      with Cons.IH have "includes_str cs t" by blast
      then show ?thesis by simp
    qed
  qed
qed

lemma matchEntity_append:
  assumes "matchEntity s = Some (entity, rest)"
  shows "s = entity @ rest"
proof -
  from assms obtain cs where s: "s = 38 # cs"
    by (cases s) (auto simp: matchEntity_def split: if_splits)
  define hash where "hash = (if startsWith cs (js ''#'') then js ''#'' else [])"
  define r where "r = drop (length hash) cs"
  have cs: "cs = hash @ r"
    by (auto simp: hash_def r_def startsWith_iff)
  from assms s have "dropWhile isAlnum r = 59 # rest" and "entity = 38 # hash @ takeWhile isAlnum r @ [59]"
    by (auto simp: matchEntity_def Let_def hash_def r_def split: if_splits list.splits)
  moreover have "r = takeWhile isAlnum r @ dropWhile isAlnum r"
    by simp
  ultimately have "r = takeWhile isAlnum r @ 59 # rest"
    by simp
  with cs s \<open>entity = 38 # hash @ takeWhile isAlnum r @ [59]\<close> show ?thesis
    by simp
qed

lemma replaceEntity_length: "entity \<noteq> [] \<Longrightarrow> length (replaceEntity entity) \<le> length entity"
  by (cases entity)
    (auto simp: replaceEntity_def entityMap_def fromCharCode_def js_def Let_def
      split: jsnumber.splits if_splits)

lemma decodeHtmlEntities_length: "length (decodeHtmlEntities s) \<le> length s"
proof (induction s rule: decodeHtmlEntities.induct)
  case 1
  show ?case by simp
next
  case (2 c cs)
  show ?case
  proof (cases "matchEntity (c # cs)")
    case None
    with 2 show ?thesis by simp
  next
    case (Some m)
    obtain entity rest where m: "m = (entity, rest)" by (cases m)
    from Some m have split: "c # cs = entity @ rest"
      by (auto dest: matchEntity_append)
    from Some m have "entity \<noteq> []"
      by (auto simp: matchEntity_def Let_def split: if_splits list.splits)
    then have "length (replaceEntity entity) \<le> length entity"
      by (rule replaceEntity_length)
    moreover from 2(2) [OF Some m [symmetric]] have "length (decodeHtmlEntities rest) \<le> length rest" .
    moreover have "length (c # cs) = length entity + length rest"
      by (simp only: split length_append)
    ultimately show ?thesis
      using Some m by simp
  qed
qed



lemma takeWhile_all: "list_all P xs \<Longrightarrow> \<not> P y \<Longrightarrow> takeWhile P (xs @ y # ys) = xs"
  by (induction xs) auto

lemma dropWhile_all: "list_all P xs \<Longrightarrow> \<not> P y \<Longrightarrow> dropWhile P (xs @ y # ys) = y # ys"
  by (induction xs) auto

lemma takeWhile_whole: "list_all P xs \<Longrightarrow> takeWhile P xs = xs"
  by (induction xs) auto

lemma list_all_mono: "list_all P xs \<Longrightarrow> (\<And>x. P x \<Longrightarrow> Q x) \<Longrightarrow> list_all Q xs"
  by (induction xs) auto

section \<open>The decoder on encoded pieces\<close>

lemma foldl_digits:
  "foldl (\<lambda>acc c. acc * R + digitValue c) a ds = a * R ^ length ds + numberOf R ds"
  by (induction ds arbitrary: a) (simp_all add: algebra_simps)

lemma digitsValue_numberOf: "digitsValue R ds = numberOf R ds"
  by (simp add: digitsValue_def foldl_digits)

text \<open>A token \<open>&#\<close>, letters and digits, \<open>;\<close> is matched as a whole.\<close>

lemma matchEntity_numeric:
  assumes "list_all isAlnum name" and "name \<noteq> []"
  shows "matchEntity (js ''&#'' @ name @ js '';'' @ rest) = Some (js ''&#'' @ name @ js '';'', rest)"
proof -
  have "\<not> isAlnum 59" by (simp add: isAlnum_def)
  with assms(1) have "takeWhile isAlnum (name @ 59 # rest) = name"
    and "dropWhile isAlnum (name @ 59 # rest) = 59 # rest"
    by (simp_all add: takeWhile_all dropWhile_all)
  with assms(2) show ?thesis
    by (simp add: matchEntity_def js_def)
qed

lemma toDouble_small: "n < 65536 \<Longrightarrow> fromCharCode (toDouble n) = [n]"
  by (simp add: toDouble_def fromCharCode_def)

lemma parseInt_decimal:
  assumes "ds \<noteq> []" and "list_all isDecimalDigit ds" and "numberOf 10 ds < 65536"
  shows "fromCharCode (parseInt ds 10) = [numberOf 10 ds]"
proof -
  have "list_all (isDigitOf 10) ds"
    by (rule list_all_mono [OF assms(2)]) (auto simp: isDecimalDigit_def isDigitOf_def digitValue_def)
  then have tw: "takeWhile (isDigitOf 10) ds = ds"
    by (rule takeWhile_whole)
  have "parseInt ds 10 = toDouble (numberOf 10 ds)"
    by (simp add: parseInt_def Let_def tw assms(1) digitsValue_numberOf)
  with assms(3) show ?thesis
    by (simp add: toDouble_small)
qed

lemma hex_no_prefix:
  assumes "list_all isHexDigit ds"
  shows "\<not> startsWith ds (js ''0x'')" "\<not> startsWith ds (js ''0X'')"
proof -
  have *: "list_all (\<lambda>c. c \<noteq> 120 \<and> c \<noteq> 88) ds"
    by (rule list_all_mono [OF assms]) (auto simp: isHexDigit_def)
  show "\<not> startsWith ds (js ''0x'')"
    using * by (cases ds; cases "tl ds") (auto simp: js_def)
  show "\<not> startsWith ds (js ''0X'')"
    using * by (cases ds; cases "tl ds") (auto simp: js_def)
qed

lemma parseInt_hexadecimal:
  assumes "ds \<noteq> []" and "list_all isHexDigit ds" and "numberOf 16 ds < 65536"
  shows "fromCharCode (parseInt ds 16) = [numberOf 16 ds]"
proof -
  have "list_all (isDigitOf 16) ds"
    by (rule list_all_mono [OF assms(2)]) (auto simp: isHexDigit_def isDigitOf_def digitValue_def)
  then have tw: "takeWhile (isDigitOf 16) ds = ds"
    by (rule takeWhile_whole)
  have "parseInt ds 16 = toDouble (numberOf 16 ds)"
    by (simp add: parseInt_def Let_def tw assms(1) hex_no_prefix [OF assms(2)] digitsValue_numberOf)
  with assms(3) show ?thesis
    by (simp add: toDouble_small)
qed

lemma decodeHtmlEntities_match:
  assumes "matchEntity s = Some (entity, rest)"
  shows "decodeHtmlEntities s = replaceEntity entity @ decodeHtmlEntities rest"
proof (cases s)
  case Nil
  with assms show ?thesis by (simp add: matchEntity_def)
next
  case (Cons c cs)
  with assms show ?thesis by simp
qed

lemma decodeHtmlEntities_literal:
  "c \<noteq> 38 \<Longrightarrow> decodeHtmlEntities (c # s) = c # decodeHtmlEntities s"
  by (simp add: matchEntity_def)

lemma replaceEntity_decimal:
  assumes "ds \<noteq> []" and "list_all isDecimalDigit ds" and "numberOf 10 ds < 65536"
  shows "replaceEntity (js ''&#'' @ ds @ js '';'') = [numberOf 10 ds]"
proof (cases "ds = [51, 57]")
  case True
  then show ?thesis
    by (simp add: replaceEntity_def entityMap_def js_def digitValue_def)
next
  case False
  have "[38, 35, 51, 57, 59] = 38 # 35 # [51, 57] @ [59::nat]"
    by simp
  then have "(38 # 35 # ds @ [59] = [38, 35, 51, 57, 59]) = (ds = [51, 57])"
    by (simp only: list.inject append1_eq_conv) simp
  with False have none: "map_of entityMap (js ''&#'' @ ds @ js '';'') = None"
    by (simp add: entityMap_def js_def)
  have "list_all (\<lambda>c. c \<noteq> 120) ds"
    by (rule list_all_mono [OF assms(2)]) (auto simp: isDecimalDigit_def)
  then have "\<not> startsWith ds (js ''x'')"
    by (cases ds) (auto simp: js_def)
  then show ?thesis
    using assms by (simp add: replaceEntity_def none) (simp add: js_def parseInt_decimal)
qed

lemma replaceEntity_hexadecimal:
  assumes "ds \<noteq> []" and "list_all isHexDigit ds" and "numberOf 16 ds < 65536"
  shows "replaceEntity (js ''&#x'' @ ds @ js '';'') = [numberOf 16 ds]"
proof -
  have none: "map_of entityMap (js ''&#x'' @ ds @ js '';'') = None"
    by (simp add: entityMap_def js_def)
  show ?thesis
    using assms by (simp add: replaceEntity_def none) (simp add: js_def parseInt_hexadecimal)
qed

lemma decode_piece:
  assumes "encodable p"
  shows "decodeHtmlEntities (encode p @ s) = literal p @ decodeHtmlEntities s"
proof (cases p)
  case (Literal c)
  with assms show ?thesis
    using decodeHtmlEntities_literal [of c s] by simp
next
  case (Decimal ds)
  with assms have ds: "ds \<noteq> []" "list_all isDecimalDigit ds" "numberOf 10 ds < 65536"
    by simp_all
  have "list_all isAlnum ds"
    by (rule list_all_mono [OF ds(2)]) (auto simp: isDecimalDigit_def isAlnum_def)
  then have "matchEntity (js ''&#'' @ ds @ js '';'' @ s) = Some (js ''&#'' @ ds @ js '';'', s)"
    using ds(1) by (rule matchEntity_numeric)
  from decodeHtmlEntities_match [OF this] Decimal show ?thesis
    by (simp add: replaceEntity_decimal [OF ds])
next
  case (Hexadecimal ds)
  with assms have ds: "ds \<noteq> []" "list_all isHexDigit ds" "numberOf 16 ds < 65536"
    by simp_all
  have "list_all isAlnum ds"
    by (rule list_all_mono [OF ds(2)]) (auto simp: isHexDigit_def isAlnum_def)
  then have "list_all isAlnum (js ''x'' @ ds)"
    by (simp add: js_def isAlnum_def)
  then have "matchEntity (js ''&#'' @ (js ''x'' @ ds) @ js '';'' @ s)
      = Some (js ''&#'' @ (js ''x'' @ ds) @ js '';'', s)"
    by (rule matchEntity_numeric) (simp add: js_def)
  from decodeHtmlEntities_match [OF this]
  have "decodeHtmlEntities (js ''&#x'' @ ds @ js '';'' @ s)
      = replaceEntity (js ''&#x'' @ ds @ js '';'') @ decodeHtmlEntities s"
    by (simp add: js_def)
  with Hexadecimal show ?thesis
    by (simp add: replaceEntity_hexadecimal [OF ds])
qed (simp_all add: js_def matchEntity_def replaceEntity_def entityMap_def isAlnum_def)

text \<open>
  A token that starts with \<open>&#\<close> is never left as it is: whatever stands between \<open>&#\<close>
  and \<open>;\<close>, the callback returns a single code unit.
\<close>

lemma numeric_token_one_code_unit:
  "length (replaceEntity (js ''&#'' @ name @ js '';'')) = 1"
proof (cases "map_of entityMap (js ''&#'' @ name @ js '';'')")
  case None
  then show ?thesis
    by (simp add: replaceEntity_def Let_def fromCharCode_def js_def split: jsnumber.splits)
next
  case (Some r)
  then have "r \<in> snd ` set entityMap"
    by (auto dest: map_of_SomeD intro: rev_image_eqI)
  then have "length r = 1"
    by (auto simp: entityMap_def js_def)
  with Some show ?thesis
    by (simp add: replaceEntity_def)
qed

section \<open>The handler, path by path\<close>

lemma POST_parsed:
  "u \<noteq> [] \<Longrightarrow> newURL P u = Some urlObj \<Longrightarrow>
   POST P (Json (Some u)) =
     (case analyse P u urlObj of
        (Some n, reqs) \<Rightarrow> (NoteResult n, reqs)
      | (None, reqs) \<Rightarrow> (NoteResult (fallbackNote u urlObj), reqs))"
  by (simp add: POST_def)

lemma analyse_fetchFails:
  "fetchFails P u \<Longrightarrow> analyse P u urlObj = (None, [PageRequest u])"
  by (auto simp: fetchFails_def analyse_def split: fetched.splits option.splits)

lemma POST_fallback:
  "u \<noteq> [] \<Longrightarrow> newURL P u = Some urlObj \<Longrightarrow> fetchFails P u \<Longrightarrow>
   POST P (Json (Some u)) = (NoteResult (fallbackNote u urlObj), [PageRequest u])"
  by (simp add: POST_parsed analyse_fetchFails)

lemma analyse_fetched:
  "fetch P u = Fetched r \<Longrightarrow> ok r \<Longrightarrow> arrayBuffer r = Some buffer \<Longrightarrow>
   analyse P u urlObj =
     (fst (summarize P u (pageTitleOf (hostname urlObj) (decodeBuffer P (headerOf r) buffer))
            (bodyTextOf (decodeBuffer P (headerOf r) buffer))),
      PageRequest u #
      snd (summarize P u (pageTitleOf (hostname urlObj) (decodeBuffer P (headerOf r) buffer))
            (bodyTextOf (decodeBuffer P (headerOf r) buffer))))"
  by (simp add: analyse_def headerOf_def Let_def split: prod.splits)

lemma summarize_no_credential:
  "OPENAI_API_KEY P = None \<or> OPENAI_API_KEY P = Some [] \<Longrightarrow>
   summarize P u t b = (Some (excerptNote t u b), [])"
  by (auto simp: summarize_def credential_def)

lemma join_two: "join sep (a # b # others) = a @ sep @ b @ (if others = [] then [] else sep @ join sep others)"
  by (cases others) auto

section \<open>The resolver, path by path\<close>

lemma decodeBuffer_declared:
  "declaredCharset ct = Some declared \<Longrightarrow> decodeBuffer P ct buffer = firstDecode P ct buffer"
  by (auto simp: declaredCharset_def decodeBuffer_def firstDecode_def split: option.splits if_splits)

lemma decodeBuffer_undeclared:
  "declaredCharset ct = None \<Longrightarrow>
   decodeBuffer P ct buffer = metaRedecode P buffer (tryDecodeWithCharsets P buffer)"
  by (auto simp: declaredCharset_def decodeBuffer_def split: option.splits if_splits)

lemma tryCharsets_first:
  assumes "i < length cs" and "textDecoder P (cs ! i) buffer = Some t"
    and "\<not> includes_str t placeholder"
    and "\<forall>j<i. \<not> decodesCleanly P (cs ! j) buffer"
  shows "tryCharsets P cs buffer = Some t"
  using assms
proof (induction cs arbitrary: i)
  case Nil
  then show ?case by simp
next
  case (Cons c cs)
  show ?case
  proof (cases i)
    case 0
    with Cons.prems show ?thesis by simp
  next
    case (Suc k)
    with Cons.prems have "\<not> decodesCleanly P c buffer"
      by auto
    moreover have "tryCharsets P cs buffer = Some t"
    proof (rule Cons.IH [of k])
      show "k < length cs" using Cons.prems Suc by simp
      show "textDecoder P (cs ! k) buffer = Some t" using Cons.prems Suc by simp
      show "\<not> includes_str t placeholder" by (rule Cons.prems(3))
      show "\<forall>j<k. \<not> decodesCleanly P (cs ! j) buffer"
      proof (intro allI impI)
        fix j assume "j < k"
        then have "Suc j < i" using Suc by simp
        with Cons.prems(4) have "\<not> decodesCleanly P ((c # cs) ! Suc j) buffer" by blast
        then show "\<not> decodesCleanly P (cs ! j) buffer" by simp
      qed
    qed
    ultimately show ?thesis
      by (auto simp: decodesCleanly_def split: option.splits)
  qed
qed

lemma tryCharsets_none:
  "\<forall>c\<in>set cs. \<not> decodesCleanly P c buffer \<Longrightarrow> tryCharsets P cs buffer = None"
  by (induction cs) (auto simp: decodesCleanly_def split: option.splits)

section \<open>The examples, evaluated\<close>

lemma helloPage_decode:
  assumes "textDecoder P = demoDecoder"
  shows "decodeBuffer P [] helloPage = helloPage"
proof -
  have "tryCharsets P charsets helloPage = Some helloPage"
    by (simp add: charsets_def assms demoDecoder_def helloPage_def js_def placeholder_def)
  moreover have "matchMetaCharset helloPage = None"
    by (simp add: helloPage_def js_def canonicalize_def)
  ultimately show ?thesis
    by (simp add: decodeBuffer_def detectedCharset_def metaRedecode_def
        tryDecodeWithCharsets_def)
qed

lemma helloPage_title: "pageTitleOf h helloPage = js ''Hello''"
  by (simp add: string_eval demo_eval pageTitleOf_def titleAt_def matchEntity_def)

lemma helloPage_body: "bodyTextOf helloPage = js ''Hello World''"
  by (simp add: string_eval demo_eval bodyTextOf_def rawBodyTextOf_def strippedText_def elementAt_def tagAt_def matchEntity_def maxBodyLength_def)

lemma exampleUrl_parsed: "newURL (serving ct buffer) exampleUrl = Some exampleUrlObj"
  by (simp add: string_eval demo_eval exampleUrlObj_def)

lemma demo_fetchFails: "fetchFails demoPlatform u"
  by (simp add: fetchFails_def demoPlatform_def)

lemma pathParts_owner_repo: "pathParts (js ''/owner/repo'') = [js ''owner'', js ''repo'']"
  by (simp add: pathParts_def js_def)

lemma fileUrl_parsed: "newURL demoPlatform fileUrl = Some fileUrlObj"
  by (simp add: string_eval demo_eval fileUrl_def fileUrlObj_def)

lemma fileUrl_trim: "trim fileUrl = fileUrl"
  by (simp add: string_eval fileUrl_def)

lemma utf16Header_declared: "declaredCharset utf16Header = Some (js ''utf-16le'')"
  by (simp add: string_eval utf16Header_def declaredCharset_def detectedCharset_def)

lemma sjisHeader_declared: "declaredCharset sjisHeader = Some (js ''shift_jis'')"
  by (simp add: string_eval sjisHeader_def declaredCharset_def detectedCharset_def)

lemma no_header_declared: "declaredCharset [] = None"
  by (simp add: declaredCharset_def detectedCharset_def)

lemma utf8Header_declared: "declaredCharset utf8Header = Some (js ''utf-8'')"
  by (simp add: string_eval utf8Header_def declaredCharset_def detectedCharset_def)

lemma metaPage_utf8: "textDecoder demoPlatform (js ''utf-8'') metaPage = Some metaPageUtf8"
  by (simp add: demoPlatform_def demoDecoder_def metaPage_def metaPageUtf8_def js_def)

lemma metaPage_sjis: "textDecoder demoPlatform (js ''shift_jis'') metaPage = Some metaPageSjis"
  by (simp add: demoPlatform_def demoDecoder_def metaPage_def metaPageSjis_def js_def)

lemma metaPage_match: "matchMetaCharset metaPageUtf8 = Some (js ''Shift_JIS'')"
  by (simp add: metaPageUtf8_def string_eval charsetValueAt_def isCharsetValueChar_def)

lemma metaPage_lower: "toLowerCase demoPlatform (js ''Shift_JIS'') = js ''shift_jis''"
  by (simp add: demoPlatform_def js_def)

lemma metaPage_clean:
  "\<not> includes_str metaPageUtf8 placeholder" "\<not> includes_str metaPageSjis placeholder"
  by (simp_all add: metaPageUtf8_def metaPageSjis_def js_def placeholder_def)

lemma metaPage_try: "tryDecodeWithCharsets demoPlatform metaPage = metaPageUtf8"
  by (simp add: tryDecodeWithCharsets_def charsets_def metaPage_utf8 metaPage_clean)

lemma metaPage_redecodes: "redecodesTo demoPlatform metaPage metaPageUtf8 metaPageSjis"
  by (simp add: redecodesTo_def metaPage_match metaPage_lower metaPage_sjis metaPage_clean)
    (simp add: js_def)

section \<open>The summary and the excerpt\<close>


lemma summarize_rejected:
  "credential P = Some k \<Longrightarrow> chatCompletion P k (userMessage t u b) = CompletionRejects \<Longrightarrow>
   summarize P u t b = (None, [CompletionRequest k (userMessage t u b)])"
  by (simp add: summarize_def)

lemma POST_excerpt:
  assumes "u \<noteq> []" and "newURL P u = Some urlObj"
    and "fetch P u = Fetched r" and "ok r" and "arrayBuffer r = Some buffer"
    and "OPENAI_API_KEY P = None \<or> OPENAI_API_KEY P = Some []"
  shows "POST P (Json (Some u)) =
     (NoteResult
        (excerptNote (pageTitleOf (hostname urlObj) (decodeBuffer P (headerOf r) buffer)) u
           (bodyTextOf (decodeBuffer P (headerOf r) buffer))),
      [PageRequest u])"
  using assms(3-6)
  by (simp only: POST_parsed [OF assms(1,2)] analyse_fetched summarize_no_credential
      fst_conv snd_conv prod.case option.case)

lemma bodyTextOf_length: "length (bodyTextOf html) \<le> 3000"
proof -
  have "length (bodyTextOf html) \<le> length (rawBodyTextOf html)"
    unfolding bodyTextOf_def by (rule decodeHtmlEntities_length)
  also have "\<dots> \<le> 3000"
    by (simp add: rawBodyTextOf_def maxBodyLength_def)
  finally show ?thesis .
qed

lemma exampleUrl_nonempty: "exampleUrl \<noteq> []"
  by (simp add: exampleUrl_def js_def)

lemma hello_fetched:
  "fetch (serving None helloPage) exampleUrl = Fetched helloResponse"
  "ok helloResponse" "arrayBuffer helloResponse = Some helloPage"
  "OPENAI_API_KEY (serving None helloPage) = None \<or> OPENAI_API_KEY (serving None helloPage) = Some []"
  "decodeBuffer (serving None helloPage) (headerOf helloResponse) helloPage = helloPage"
  by (simp_all add: helloPage_decode serving_def demoPlatform_def headerOf_def helloResponse_def)


section \<open>The extractor on markup\<close>




subsection \<open>Removal of the script and style elements\<close>














subsection \<open>Replacement of the tags\<close>





subsection \<open>Runs of white space\<close>


subsection \<open>The search for the title\<close>







subsection \<open>Title and body text of the page\<close>




section \<open>The notes of a fetched page\<close>
















section \<open>Validation of the input\<close>

text \<open>
  C1. An input that is absent, empty or rejected by the URL parser is answered with status
  400, and no network request is issued. A URL that parses but whose scheme is neither http
  nor https is turned away by \<open>isValidUrl\<close>, the test the workspace makes before it triggers
  an analysis; the handler has no check of the scheme.
\<close>

theorem unparsable_url_rejected:
  "POST P (Json None) = (ErrorResult 400 errorNoUrl, [])
   \<and> (u = [] \<longrightarrow> POST P (Json (Some u)) = (ErrorResult 400 errorNoUrl, []))
   \<and> (u \<noteq> [] \<and> newURL P u = None \<longrightarrow>
        POST P (Json (Some u)) = (ErrorResult 400 errorInvalidUrl, []))
   \<and> (newURL P (trim u) = None \<longrightarrow> \<not> isValidUrl P u)
   \<and> (newURL P (trim u) = Some urlObj \<and> protocol urlObj \<noteq> js ''http:''
          \<and> protocol urlObj \<noteq> js ''https:'' \<longrightarrow> \<not> isValidUrl P u)"
  by (simp add: POST_def isValidUrl_def)

text \<open>
  A text that is not a URL is answered with the error for an invalid URL, the empty string
  with the error for a missing URL, and \<open>isValidUrl\<close> is false for both that text and an ftp
  URL.
\<close>

theorem unparsable_url_rejected_witness:
  "POST demoPlatform (Json (Some (js ''not a url''))) = (ErrorResult 400 errorInvalidUrl, [])
   \<and> POST demoPlatform (Json (Some [])) = (ErrorResult 400 errorNoUrl, [])
   \<and> \<not> isValidUrl demoPlatform (js ''not a url'')
   \<and> \<not> isValidUrl demoPlatform fileUrl"
proof -
  have n: "newURL demoPlatform (js ''not a url'') = None"
    by (simp add: string_eval demo_eval)
  have t: "trim (js ''not a url'') = js ''not a url''"
    by (simp add: string_eval)
  have p: "protocol fileUrlObj \<noteq> js ''http:'' \<and> protocol fileUrlObj \<noteq> js ''https:''"
    by (simp add: fileUrlObj_def js_def)
  have ne: "js ''not a url'' \<noteq> []"
    by (simp add: js_def)
  show ?thesis
    using unparsable_url_rejected [of demoPlatform "js ''not a url''" fileUrlObj]
      unparsable_url_rejected [of demoPlatform "[]" fileUrlObj]
      unparsable_url_rejected [of demoPlatform fileUrl fileUrlObj]
      n t p ne fileUrl_parsed fileUrl_trim
    by simp
qed

text \<open>
  An ftp URL parses, so the handler goes on: it calls \<open>fetch\<close> with it, and when that is
  rejected it answers with the default note of the fallback, not with an error.
\<close>

theorem scheme_not_checked_counterexample:
  "newURL demoPlatform fileUrl = Some fileUrlObj
   \<and> protocol fileUrlObj = js ''ftp:''
   \<and> POST demoPlatform (Json (Some fileUrl)) =
       (NoteResult (defaultNote fileUrl fileUrlObj), [PageRequest fileUrl])"
proof -
  have 1: "fileUrl \<noteq> []"
    by (simp add: fileUrl_def js_def)
  have "fallbackNote fileUrl fileUrlObj = defaultNote fileUrl fileUrlObj"
    by (simp add: fallbackNote_def fileUrlObj_def js_def)
  with POST_fallback [OF 1 fileUrl_parsed demo_fetchFails] fileUrl_parsed show ?thesis
    by (simp add: fileUrlObj_def)
qed

section \<open>The scan for a declared charset in the markup\<close>

text \<open>
  C2. The decoded text is scanned for a \<open>meta\<close> charset only when the Content-Type header
  declares no charset. Then the text of the candidate trial is replaced by a strict decode
  of the raw bytes with the lower-cased \<open>meta\<close> charset exactly when that charset is not
  \<open>utf-8\<close>, the text so far has no placeholder character, and the new decode succeeds without
  a placeholder character; whether it differs from the charset already used is not looked
  at. When the header declares a charset the result is its strict decode, or the candidate
  trial if that fails, and no scan is made.
\<close>

theorem meta_charset_scan:
  "(declaredCharset ct = Some declared \<longrightarrow>
      decodeBuffer P ct buffer =
        (case textDecoder P declared buffer of
           Some html \<Rightarrow> html
         | None \<Rightarrow> tryDecodeWithCharsets P buffer))
   \<and> (declaredCharset ct = None \<and> redecodesTo P buffer (tryDecodeWithCharsets P buffer) t \<longrightarrow>
      decodeBuffer P ct buffer = t)
   \<and> (declaredCharset ct = None
        \<and> (\<forall>t'. \<not> redecodesTo P buffer (tryDecodeWithCharsets P buffer) t') \<longrightarrow>
      decodeBuffer P ct buffer = tryDecodeWithCharsets P buffer)"
proof (intro conjI impI)
  assume "declaredCharset ct = Some declared"
  then show "decodeBuffer P ct buffer =
        (case textDecoder P declared buffer of
           Some html \<Rightarrow> html
         | None \<Rightarrow> tryDecodeWithCharsets P buffer)"
    by (simp add: decodeBuffer_declared firstDecode_def)
next
  assume "declaredCharset ct = None \<and> redecodesTo P buffer (tryDecodeWithCharsets P buffer) t"
  then show "decodeBuffer P ct buffer = t"
    by (auto simp: decodeBuffer_undeclared redecodesTo_def metaRedecode_def Let_def
        split: option.splits)
next
  assume "declaredCharset ct = None
    \<and> (\<forall>t'. \<not> redecodesTo P buffer (tryDecodeWithCharsets P buffer) t')"
  then show "decodeBuffer P ct buffer = tryDecodeWithCharsets P buffer"
    by (auto simp: decodeBuffer_undeclared redecodesTo_def metaRedecode_def Let_def
        split: option.splits)
qed

text \<open>
  The page with the \<open>meta\<close> tag: under a header that declares UTF-8 it stays the UTF-8 text;
  with no header it becomes the Shift_JIS text; and a page without a \<open>meta\<close> tag stays as the
  candidate trial decoded it.
\<close>

theorem meta_charset_scan_witness:
  "decodeBuffer demoPlatform utf8Header metaPage = metaPageUtf8
   \<and> decodeBuffer demoPlatform [] metaPage = metaPageSjis
   \<and> decodeBuffer demoPlatform [] helloPage = helloPage"
proof -
  have 1: "decodeBuffer demoPlatform utf8Header metaPage = metaPageUtf8"
    using meta_charset_scan [of utf8Header "js ''utf-8''" demoPlatform metaPage "[]"]
    by (simp add: utf8Header_declared metaPage_utf8)
  have 2: "decodeBuffer demoPlatform [] metaPage = metaPageSjis"
    using meta_charset_scan [of "[]" "[]" demoPlatform metaPage metaPageSjis] metaPage_redecodes
    by (simp add: no_header_declared metaPage_try)
  have h: "tryDecodeWithCharsets demoPlatform helloPage = helloPage"
    by (simp add: tryDecodeWithCharsets_def charsets_def demoPlatform_def demoDecoder_def
        helloPage_def js_def placeholder_def)
  have "matchMetaCharset helloPage = None"
    by (simp add: helloPage_def js_def canonicalize_def)
  then have n: "\<forall>t'. \<not> redecodesTo demoPlatform helloPage helloPage t'"
    by (simp add: redecodesTo_def)
  have 3: "decodeBuffer demoPlatform [] helloPage = helloPage"
    using meta_charset_scan [of "[]" "[]" demoPlatform helloPage "[]"] n
    by (simp add: no_header_declared h)
  from 1 2 3 show ?thesis
    by simp
qed

text \<open>
  The header declares UTF-8 and the strict decode succeeds. The text has a \<open>meta\<close> tag that
  declares Shift_JIS, which is not UTF-8, and the raw bytes decode strictly and without a
  placeholder character as Shift_JIS, to another text; yet the result is the UTF-8 text.
\<close>

theorem meta_charset_scan_counterexample:
  "declaredCharset utf8Header = Some (js ''utf-8'')
   \<and> textDecoder demoPlatform (js ''utf-8'') metaPage = Some metaPageUtf8
   \<and> matchMetaCharset metaPageUtf8 = Some (js ''Shift_JIS'')
   \<and> toLowerCase demoPlatform (js ''Shift_JIS'') = js ''shift_jis''
   \<and> js ''shift_jis'' \<noteq> js ''utf-8''
   \<and> textDecoder demoPlatform (js ''shift_jis'') metaPage = Some metaPageSjis
   \<and> \<not> includes_str metaPageSjis placeholder
   \<and> decodeBuffer demoPlatform utf8Header metaPage = metaPageUtf8
   \<and> metaPageUtf8 \<noteq> metaPageSjis"
proof -
  have "decodeBuffer demoPlatform utf8Header metaPage = metaPageUtf8"
    by (simp add: decodeBuffer_declared [OF utf8Header_declared] firstDecode_def
        utf8Header_declared metaPage_utf8)
  moreover have "js ''shift_jis'' \<noteq> js ''utf-8''"
    by (simp add: js_def)
  moreover have "metaPageUtf8 \<noteq> metaPageSjis"
    by (simp add: metaPageUtf8_def metaPageSjis_def)
  ultimately show ?thesis
    by (simp add: utf8Header_declared metaPage_utf8 metaPage_sjis metaPage_match metaPage_lower
        metaPage_clean)
qed

section \<open>The priority of the charsets\<close>

text \<open>
  C3. Provided the charset that the header declares does not decode the bytes strictly to a
  text with a placeholder character (such a decode is accepted as it is), the text before
  the scan for a \<open>meta\<close> charset is the decode by the first candidate, in the order declared
  charset, utf-8, shift_jis, euc-jp, iso-2022-jp, that decodes the bytes strictly and
  without a placeholder character; if no candidate does, it is the lossy UTF-8 decode, which
  is a string for every buffer. With a declared charset that text is the result of the
  resolver; without one the scan for a \<open>meta\<close> charset follows.
\<close>

theorem charset_priority:
  assumes proviso: "\<forall>declared t. declaredCharset ct = Some declared
      \<and> textDecoder P declared buffer = Some t \<longrightarrow> \<not> includes_str t placeholder"
  shows "(i < length (priorityOrder ct) \<and> textDecoder P (priorityOrder ct ! i) buffer = Some t
        \<and> \<not> includes_str t placeholder
        \<and> (\<forall>j<i. \<not> decodesCleanly P (priorityOrder ct ! j) buffer)
      \<longrightarrow> firstDecode P ct buffer = t)
    \<and> ((\<forall>c\<in>set (priorityOrder ct). \<not> decodesCleanly P c buffer)
      \<longrightarrow> firstDecode P ct buffer = lossyUtf8 P buffer)
    \<and> charsets = [js ''utf-8'', js ''shift_jis'', js ''euc-jp'', js ''iso-2022-jp'']
    \<and> decodeBuffer P ct buffer =
        (if declaredCharset ct = None then metaRedecode P buffer (firstDecode P ct buffer)
         else firstDecode P ct buffer)"
proof -
  have spec: "firstDecode P ct buffer =
      (case tryCharsets P (priorityOrder ct) buffer of Some d \<Rightarrow> d | None \<Rightarrow> lossyUtf8 P buffer)"
  proof (cases "declaredCharset ct")
    case None
    then show ?thesis
      by (simp add: firstDecode_def priorityOrder_def tryDecodeWithCharsets_def)
  next
    case (Some declared)
    with proviso show ?thesis
      by (auto simp: firstDecode_def priorityOrder_def tryDecodeWithCharsets_def
          split: option.splits)
  qed
  have "firstDecode P ct buffer = t"
    if "i < length (priorityOrder ct)" "textDecoder P (priorityOrder ct ! i) buffer = Some t"
      "\<not> includes_str t placeholder" "\<forall>j<i. \<not> decodesCleanly P (priorityOrder ct ! j) buffer"
    using tryCharsets_first [OF that] by (simp add: spec)
  moreover have "firstDecode P ct buffer = lossyUtf8 P buffer"
    if "\<forall>c\<in>set (priorityOrder ct). \<not> decodesCleanly P c buffer"
    using tryCharsets_none [OF that] by (simp add: spec)
  moreover have "decodeBuffer P ct buffer =
        (if declaredCharset ct = None then metaRedecode P buffer (firstDecode P ct buffer)
         else firstDecode P ct buffer)"
    by (auto simp: decodeBuffer_declared decodeBuffer_undeclared firstDecode_def)
  ultimately show ?thesis
    by (simp add: charsets_def)
qed

text \<open>
  Two bytes that decode without a placeholder character both as Shift_JIS and as UTF-8 are
  decoded as Shift_JIS when the header declares it, and as UTF-8, the earlier of the fixed
  candidates, when the header declares nothing; a byte that no candidate decodes gives the
  lossy decode.
\<close>

theorem charset_priority_witness:
  "textDecoder demoPlatform (js ''shift_jis'') [0xC2, 0xA9] = Some [0xFF82, 0xFF69]
   \<and> textDecoder demoPlatform (js ''utf-8'') [0xC2, 0xA9] = Some [0xA9]
   \<and> firstDecode demoPlatform sjisHeader [0xC2, 0xA9] = [0xFF82, 0xFF69]
   \<and> firstDecode demoPlatform [] [0xC2, 0xA9] = [0xA9]
   \<and> firstDecode demoPlatform sjisHeader [0xFF] = lossyUtf8 demoPlatform [0xFF]"
proof -
  have order: "priorityOrder [] = charsets" "priorityOrder sjisHeader = js ''shift_jis'' # charsets"
    by (simp_all add: priorityOrder_def no_header_declared sjisHeader_declared)
  have u: "textDecoder demoPlatform (js ''utf-8'') [0xC2, 0xA9] = Some [0xA9]"
    by (simp add: demoPlatform_def demoDecoder_def)
  have s: "textDecoder demoPlatform (js ''shift_jis'') [0xC2, 0xA9] = Some [0xFF82, 0xFF69]"
    by (simp add: demoPlatform_def demoDecoder_def js_def)
  have c: "\<not> includes_str [0xA9] placeholder" "\<not> includes_str [0xFF82, 0xFF69] placeholder"
    by (simp_all add: placeholder_def)
  have n: "\<forall>c\<in>set (js ''shift_jis'' # charsets). \<not> decodesCleanly demoPlatform c [0xFF]"
    by (simp add: charsets_def decodesCleanly_def demoPlatform_def demoDecoder_def js_def)
  have p0: "\<forall>declared t. declaredCharset [] = Some declared
      \<and> textDecoder demoPlatform declared buffer = Some t \<longrightarrow> \<not> includes_str t placeholder"
    for buffer
    by (simp add: no_header_declared)
  have p1: "\<forall>declared t. declaredCharset sjisHeader = Some declared
      \<and> textDecoder demoPlatform declared [0xC2, 0xA9] = Some t \<longrightarrow> \<not> includes_str t placeholder"
    by (auto simp: sjisHeader_declared s placeholder_def)
  have p2: "\<forall>declared t. declaredCharset sjisHeader = Some declared
      \<and> textDecoder demoPlatform declared [0xFF] = Some t \<longrightarrow> \<not> includes_str t placeholder"
    by (auto simp: sjisHeader_declared demoPlatform_def demoDecoder_def js_def)
  have "firstDecode demoPlatform sjisHeader [0xC2, 0xA9] = [0xFF82, 0xFF69]"
    using charset_priority [OF p1, of 0 "[0xFF82, 0xFF69]"] s c
    by (simp add: order)
  moreover have "firstDecode demoPlatform [] [0xC2, 0xA9] = [0xA9]"
    using charset_priority [OF p0, of 0 "[0xC2, 0xA9]" "[0xA9]"] u c
    by (simp add: order charsets_def)
  moreover have "firstDecode demoPlatform sjisHeader [0xFF] = lossyUtf8 demoPlatform [0xFF]"
    using charset_priority [OF p2, of 0 "[]"] n
    by (simp add: order)
  ultimately show ?thesis
    using u s by simp
qed

text \<open>
  The header declares UTF-16LE and the two bytes are the placeholder character in it. No
  candidate decodes them strictly without a placeholder character, and the result is the
  strict UTF-16LE decode, one placeholder character, not the lossy UTF-8 decode, which has
  two.
\<close>

theorem charset_priority_counterexample:
  "declaredCharset utf16Header = Some (js ''utf-16le'')
   \<and> priorityOrder utf16Header
       = [js ''utf-16le'', js ''utf-8'', js ''shift_jis'', js ''euc-jp'', js ''iso-2022-jp'']
   \<and> textDecoder demoPlatform (js ''utf-16le'') [0xFD, 0xFF] = Some [0xFFFD]
   \<and> \<not> decodesCleanly demoPlatform (js ''utf-16le'') [0xFD, 0xFF]
   \<and> \<not> decodesCleanly demoPlatform (js ''utf-8'') [0xFD, 0xFF]
   \<and> \<not> decodesCleanly demoPlatform (js ''shift_jis'') [0xFD, 0xFF]
   \<and> \<not> decodesCleanly demoPlatform (js ''euc-jp'') [0xFD, 0xFF]
   \<and> \<not> decodesCleanly demoPlatform (js ''iso-2022-jp'') [0xFD, 0xFF]
   \<and> firstDecode demoPlatform utf16Header [0xFD, 0xFF] = [0xFFFD]
   \<and> decodeBuffer demoPlatform utf16Header [0xFD, 0xFF] = [0xFFFD]
   \<and> lossyUtf8 demoPlatform [0xFD, 0xFF] = [0xFFFD, 0xFFFD]"
proof -
  have d: "textDecoder demoPlatform (js ''utf-16le'') [0xFD, 0xFF] = Some [0xFFFD]"
    by (simp add: demoPlatform_def demoDecoder_def js_def)
  have f: "firstDecode demoPlatform utf16Header [0xFD, 0xFF] = [0xFFFD]"
    by (simp add: firstDecode_def utf16Header_declared d)
  show ?thesis
    by (simp add: utf16Header_declared priorityOrder_def charsets_def d f
        decodeBuffer_declared [OF utf16Header_declared])
      (simp add: decodesCleanly_def demoPlatform_def demoDecoder_def demoLossy_def js_def
        placeholder_def)
qed

section \<open>Failure of the summarization\<close>

text \<open>
  C4. With a credential set, the page fetched and the call of the completion endpoint
  rejected, the exception reaches \<open>catch (fetchError)\<close>: the handler does not raise and
  answers with a note, but the note is the default note of the fetch fallback, titled with
  the hostname, and not the excerpt template, which a missing credential
  (\<open>summarize_no_credential\<close>) and a response that is not \<open>ok\<close> (\<open>summarize_not_ok\<close>) give.
\<close>

theorem provider_rejection_gives_fallback:
  "POST rejectingProvider (Json (Some exampleUrl)) =
     (NoteResult (defaultNote exampleUrl exampleUrlObj),
      [PageRequest exampleUrl,
       CompletionRequest (js ''sk-test'')
         (userMessage (js ''Hello'') exampleUrl (js ''Hello World''))])
   \<and> defaultNote exampleUrl exampleUrlObj
       \<noteq> excerptNote (js ''Hello'') exampleUrl (js ''Hello World'')"
proof -
  have 2: "newURL rejectingProvider exampleUrl = Some exampleUrlObj"
    using exampleUrl_parsed [of None helloPage] by (simp add: rejectingProvider_def serving_def)
  have 3: "fetch rejectingProvider exampleUrl = Fetched helloResponse"
    by (simp add: rejectingProvider_def serving_def helloResponse_def)
  have d: "decodeBuffer rejectingProvider (headerOf helloResponse) helloPage = helloPage"
    by (simp add: helloPage_decode rejectingProvider_def serving_def demoPlatform_def headerOf_def
        helloResponse_def)
  have k: "credential rejectingProvider = Some (js ''sk-test'')"
    by (simp add: credential_def rejectingProvider_def js_def)
  have s: "summarize rejectingProvider exampleUrl (js ''Hello'') (js ''Hello World'') =
      (None, [CompletionRequest (js ''sk-test'')
                (userMessage (js ''Hello'') exampleUrl (js ''Hello World''))])"
    by (rule summarize_rejected [OF k]) (simp add: rejectingProvider_def)
  have f: "fallbackNote exampleUrl exampleUrlObj = defaultNote exampleUrl exampleUrlObj"
    by (simp add: fallbackNote_def exampleUrlObj_def js_def)
  have "title (defaultNote exampleUrl exampleUrlObj)
      \<noteq> title (excerptNote (js ''Hello'') exampleUrl (js ''Hello World''))"
    by (simp add: defaultNote_def excerptNote_def exampleUrlObj_def js_def)
  then have n: "defaultNote exampleUrl exampleUrlObj
      \<noteq> excerptNote (js ''Hello'') exampleUrl (js ''Hello World'')"
    by auto
  show ?thesis
    by (simp add: POST_parsed [OF exampleUrl_nonempty 2] analyse_fetched [OF 3 hello_fetched(2,3)]
        d helloPage_title helloPage_body s f n)
qed

section \<open>The page with a title and a body\<close>





section \<open>The round trip through the entity decoder\<close>

text \<open>
  C6. A text encoded piece by piece, with every ampersand written as an entity, the named
  entities \<open>amp\<close>, \<open>lt\<close>, \<open>gt\<close>, \<open>quot\<close> and \<open>apos\<close>, and well-formed numeric character
  references below 65536 in decimal or in hexadecimal with a lower-case \<open>x\<close>, is decoded to
  the literal text exactly; \<open>&nbsp;\<close> is decoded to a plain space.
\<close>

theorem entity_round_trip:
  "list_all encodable ps \<Longrightarrow>
   decodeHtmlEntities (concat (map encode ps)) = concat (map literal ps)"
  by (induction ps) (simp_all add: decode_piece)

text \<open>
  A text with every kind of piece, among them a reference with leading zeros and one with
  hexadecimal digits in both cases.
\<close>

theorem entity_round_trip_witness:
  "decodeHtmlEntities (js ''a&amp;&lt;&gt;&quot;&apos;&nbsp;&#65;&#39;&#0065;&#x3042;&#xfF;'')
     = js ''a&<>'' @ [34, 39] @ js '' A'' @ [39] @ js ''A'' @ [0x3042, 0xFF]"
  using entity_round_trip
    [of "[Literal 97, Amp, Lt, Gt, Quot, Apos, Nbsp, Decimal (js ''65''), Decimal (js ''39''),
          Decimal (js ''0065''), Hexadecimal (js ''3042''), Hexadecimal (js ''fF'')]"]
  by (simp add: js_def isDecimalDigit_def isHexDigit_def digitValue_def)

text \<open>
  The reference to \<open>A\<close> in hexadecimal with a capital \<open>X\<close> is decoded to the code unit 0; the
  reference to U+1F600, whose literal text is the surrogate pair D83D DE00, to the single
  code unit F600; and \<open>&nbsp;\<close> to the space U+0020, not to U+00A0.
\<close>

theorem entity_round_trip_counterexample:
  "decodeHtmlEntities (js ''&#X41;'') = [0]
   \<and> decodeHtmlEntities (js ''&#128512;'') = [0xF600]
   \<and> decodeHtmlEntities (js ''&nbsp;'') = [0x20]"
  by (simp add: js_def matchEntity_def replaceEntity_def entityMap_def isAlnum_def parseInt_def
      fromCharCode_def toDouble_def digitsValue_def isDigitOf_def digitValue_def)

section \<open>Tokens that are not entities\<close>

text \<open>
  C7. The token \<open>&#zz;\<close> matches the entity pattern, is not in \<open>entityMap\<close> and is not a
  well-formed numeric character reference, and the decoder replaces it by the code unit 0
  instead of leaving it; \<open>&#12ab;\<close> becomes the code unit 12 (every token that starts with
  \<open>&#\<close> becomes one code unit: \<open>numeric_token_one_code_unit\<close>). A token without \<open>#\<close> that
  is not in \<open>entityMap\<close> is left as it is, and the decoder returns a string for every
  input.
\<close>

theorem malformed_reference_replaced:
  "matchEntity (js ''&#zz;'') = Some (js ''&#zz;'', [])
   \<and> map_of entityMap (js ''&#zz;'') = None
   \<and> decodeHtmlEntities (js ''&#zz;'') = [0]
   \<and> decodeHtmlEntities (js ''&#12ab;'') = [12]
   \<and> decodeHtmlEntities (js ''&foo;'') = js ''&foo;''"
  by (simp add: js_def matchEntity_def replaceEntity_def entityMap_def isAlnum_def parseInt_def
      fromCharCode_def toDouble_def digitsValue_def isDigitOf_def digitValue_def)

section \<open>The bound on the body excerpt\<close>

text \<open>
  C8. The body excerpt is at most 3000 code units long, right after the truncation
  (\<open>rawBodyText\<close>) and after the entity decoding that follows (\<open>bodyText\<close>), and the
  truncation comes first: \<open>bodyText\<close> is the decoded form of the truncated text.
\<close>

theorem body_excerpt_bounded:
  "length (rawBodyTextOf html) \<le> 3000
   \<and> length (bodyTextOf html) \<le> 3000
   \<and> bodyTextOf html = decodeHtmlEntities (take 3000 (strippedText html))"
  by (simp add: bodyTextOf_length)
    (simp add: bodyTextOf_def rawBodyTextOf_def maxBodyLength_def)

section \<open>The fallback for a code-hosting URL\<close>

text \<open>
  C9. When the fetch of the page fails, the hostname contains \<open>github.com\<close> and does not
  contain \<open>slack.com\<close> (which is tested first), and the path has two or more non-empty
  segments, the note is the GitHub note: its title and its content contain the first two
  segments joined by a slash.
\<close>

theorem github_fallback:
  assumes "u \<noteq> []" and "newURL P u = Some urlObj" and "fetchFails P u"
    and "includes_str (hostname urlObj) (js ''github.com'')"
    and "\<not> includes_str (hostname urlObj) (js ''slack.com'')"
    and "pathParts (pathname urlObj) = owner # repo # others"
  shows "POST P (Json (Some u)) =
      (NoteResult (githubNote u (owner # repo # others)), [PageRequest u])
    \<and> includes_str (title (githubNote u (owner # repo # others))) (owner @ js ''/'' @ repo)
    \<and> includes_str (content (githubNote u (owner # repo # others))) (owner @ js ''/'' @ repo)"
proof -
  have "fallbackNote u urlObj = githubNote u (owner # repo # others)"
    using assms(4-6) by (simp add: fallbackNote_def)
  with POST_fallback [OF assms(1-3)]
  have "POST P (Json (Some u)) =
      (NoteResult (githubNote u (owner # repo # others)), [PageRequest u])"
    by simp
  moreover
  have "includes_str (title (githubNote u (owner # repo # others))) (owner @ js ''/'' @ repo)"
  proof -
    have "title (githubNote u (owner # repo # others))
      = js ''GitHub - '' @ (owner @ js ''/'' @ repo)
          @ (if others = [] then [] else js ''/'' @ join (js ''/'') others)"
      by (simp add: githubNote_def join_two del: join.simps)
    then show ?thesis
      unfolding includes_str_iff by blast
  qed
  moreover
  have "includes_str (content (githubNote u (owner # repo # others))) (owner @ js ''/'' @ repo)"
  proof -
    have "content (githubNote u (owner # repo # others))
      = (js ''# GitHub '' @ [0x30ea, 0x30f3, 0x30af] @ nl @ nl @ js ''URL: '' @ u @ nl @ nl
        @ [0x30ea, 0x30dd, 0x30b8, 0x30c8, 0x30ea] @ js '': '') @ (owner @ js ''/'' @ repo)
        @ (nl @ nl @ js ''[GitHub'' @ [0x3067, 0x958b, 0x304f] @ js '']('' @ u @ js '')'')"
      by (simp add: githubNote_def)
    then show ?thesis
      unfolding includes_str_iff by blast
  qed
  ultimately show ?thesis
    by simp
qed

text \<open>The URL of a repository on a platform where no page can be fetched.\<close>

theorem github_fallback_witness:
  "POST demoPlatform (Json (Some repoUrl)) =
     (NoteResult (githubNote repoUrl [js ''owner'', js ''repo'']), [PageRequest repoUrl])
   \<and> title (githubNote repoUrl [js ''owner'', js ''repo'']) = js ''GitHub - owner/repo''
   \<and> includes_str (title (githubNote repoUrl [js ''owner'', js ''repo''])) (js ''owner/repo'')
   \<and> includes_str (content (githubNote repoUrl [js ''owner'', js ''repo''])) (js ''owner/repo'')"
proof -
  have 1: "repoUrl \<noteq> []"
    by (simp add: repoUrl_def js_def)
  have 2: "newURL demoPlatform repoUrl = Some repoUrlObj"
    by (simp add: string_eval demo_eval repoUrl_def repoUrlObj_def)
  have 4: "includes_str (hostname repoUrlObj) (js ''github.com'')"
    by (simp add: repoUrlObj_def js_def)
  have 5: "\<not> includes_str (hostname repoUrlObj) (js ''slack.com'')"
    by (simp add: repoUrlObj_def js_def)
  have 6: "pathParts (pathname repoUrlObj) = js ''owner'' # js ''repo'' # []"
    by (simp add: repoUrlObj_def pathParts_owner_repo)
  have t: "title (githubNote repoUrl [js ''owner'', js ''repo'']) = js ''GitHub - owner/repo''"
    by (simp add: githubNote_def js_def)
  have e: "js ''owner'' @ js ''/'' @ js ''repo'' = js ''owner/repo''"
    by (simp add: js_def)
  show ?thesis
    using github_fallback [OF 1 2 demo_fetchFails 4 5 6] t
    by (simp only: e)
qed

text \<open>
  A hostname that contains both \<open>github.com\<close> and \<open>slack.com\<close>, with the path \<open>/owner/repo\<close>:
  the note is the Slack note, whose title ends with the last segment only.
\<close>

theorem github_fallback_counterexample:
  "newURL demoPlatform chatHostUrl = Some chatHostUrlObj
   \<and> fetchFails demoPlatform chatHostUrl
   \<and> includes_str (hostname chatHostUrlObj) (js ''github.com'')
   \<and> pathParts (pathname chatHostUrlObj) = [js ''owner'', js ''repo'']
   \<and> POST demoPlatform (Json (Some chatHostUrl)) =
       (NoteResult (slackNote chatHostUrl chatHostUrlObj), [PageRequest chatHostUrl])
   \<and> title (slackNote chatHostUrl chatHostUrlObj) = js ''Slack - repo''
   \<and> \<not> includes_str (title (slackNote chatHostUrl chatHostUrlObj)) (js ''owner/repo'')"
proof -
  have 1: "chatHostUrl \<noteq> []"
    by (simp add: chatHostUrl_def js_def)
  have 2: "newURL demoPlatform chatHostUrl = Some chatHostUrlObj"
    by (simp add: string_eval demo_eval chatHostUrl_def chatHostUrlObj_def)
  have 3: "includes_str (hostname chatHostUrlObj) (js ''github.com'')"
    by (simp add: chatHostUrlObj_def js_def)
  have 4: "includes_str (hostname chatHostUrlObj) (js ''slack.com'')"
    by (simp add: chatHostUrlObj_def js_def)
  have 5: "pathParts (pathname chatHostUrlObj) = [js ''owner'', js ''repo'']"
    by (simp add: chatHostUrlObj_def pathParts_owner_repo)
  have 6: "title (slackNote chatHostUrl chatHostUrlObj) = js ''Slack - repo''"
    by (simp add: slackNote_def 5) (simp add: js_def)
  have 7: "\<not> includes_str (js ''Slack - repo'') (js ''owner/repo'')"
    by (simp add: js_def)
  have "fallbackNote chatHostUrl chatHostUrlObj = slackNote chatHostUrl chatHostUrlObj"
    using 4 by (simp add: fallbackNote_def)
  with POST_fallback [OF 1 2 demo_fetchFails]
  have 8: "POST demoPlatform (Json (Some chatHostUrl)) =
       (NoteResult (slackNote chatHostUrl chatHostUrlObj), [PageRequest chatHostUrl])"
    by simp
  from 2 demo_fetchFails 3 5 8 6 7 show ?thesis
    by simp
qed

section \<open>The excerpt without a credential\<close>

text \<open>
  C10. When \<open>OPENAI_API_KEY\<close> is unset or empty and the page is fetched, the content is the
  excerpt template: of the body excerpt, which is at most 3000 code units long, only the
  first 500 code units are included, and the three dots follow them in every case, also
  when the excerpt is shorter than 500.
\<close>

theorem excerpt_without_credential:
  assumes "u \<noteq> []" and "newURL P u = Some urlObj"
    and "fetch P u = Fetched r" and "ok r" and "arrayBuffer r = Some buffer"
    and "OPENAI_API_KEY P = None \<or> OPENAI_API_KEY P = Some []"
  shows "POST P (Json (Some u)) =
     (NoteResult
        \<lparr>title = pageTitleOf (hostname urlObj) (decodeBuffer P (headerOf r) buffer),
         content = js ''# '' @ pageTitleOf (hostname urlObj) (decodeBuffer P (headerOf r) buffer)
           @ nl @ nl @ js ''URL: '' @ u @ nl @ nl @ js ''## '' @ [0x6982, 0x8981] @ nl @ nl
           @ take 500 (bodyTextOf (decodeBuffer P (headerOf r) buffer)) @ js ''...'' @ nl @ nl
           @ js ''['' @ openOriginal @ js '']('' @ u @ js '')''\<rparr>,
      [PageRequest u])
    \<and> length (bodyTextOf (decodeBuffer P (headerOf r) buffer)) \<le> 3000"
  using POST_excerpt [OF assms] by (simp add: excerptNote_def bodyTextOf_length)

text \<open>The excerpt of the page is eleven code units long, and the dots follow it.\<close>

theorem excerpt_without_credential_witness:
  "POST (serving None helloPage) (Json (Some exampleUrl)) =
     (NoteResult
        \<lparr>title = js ''Hello'',
         content = js ''# Hello'' @ nl @ nl @ js ''URL: http://example.com/'' @ nl @ nl
           @ js ''## '' @ [0x6982, 0x8981] @ nl @ nl @ js ''Hello World'' @ js ''...'' @ nl @ nl
           @ js ''['' @ openOriginal @ js ''](http://example.com/)''\<rparr>,
      [PageRequest exampleUrl])
   \<and> length (js ''Hello World'') = 11"
  using excerpt_without_credential [OF exampleUrl_nonempty exampleUrl_parsed hello_fetched(1-4)]
  by (simp add: hello_fetched(5) helloPage_title helloPage_body) (simp add: js_def exampleUrl_def)

end
